theory Spec2Isabelle
  imports Main
begin

section \<open>Python values, exceptions and text\<close>

text \<open>
  The scripts of the repository shell out to the \<^verbatim>\<open>gh\<close> command-line client, read what it
  prints with \<^verbatim>\<open>json.loads\<close> and build the next command from the parsed values. The values
  a parsed response can hold are the JSON values; Python's \<^verbatim>\<open>None\<close> is \<open>JNull\<close>. Numbers are
  integers (issue and milestone numbers); non-integer JSON numbers are outside the model.
  An object is the parsed \<^verbatim>\<open>dict\<close> in insertion order, read with \<open>map_of\<close>.
  A string is a list of characters, a character being a code point below 256; text with
  other characters is outside the model.
\<close>

datatype json =
    JNull
  | JBool bool
  | JNum int
  | JStr string
  | JArr "json list"
  | JObj "(string \<times> json) list"

text \<open>The exceptions the modelled statements can raise.\<close>

datatype exn =
    NameError string
  | JSONDecodeError
  | AttributeError
  | KeyError string
  | TypeError

text \<open>
  The text a process writes to standard output is represented by what \<^verbatim>\<open>json.loads\<close> makes
  of it and of its stripped form. \<open>Json j\<close> is a text that parses to \<open>j\<close>. \<open>Padded j\<close> is a
  text that \<^verbatim>\<open>json.loads\<close> rejects as it stands and parses to \<open>j\<close> once \<^verbatim>\<open>strip()\<close> has
  removed the white space at its ends: \<^verbatim>\<open>strip()\<close> removes characters, a form feed for one,
  that JSON does not take for white space. \<open>Raw s\<close> is the text \<open>s\<close>, which
  \<^verbatim>\<open>json.loads\<close> rejects as it stands and stripped (the empty text among them).
\<close>

datatype otext = Json json | Padded json | Raw string

fun json_loads :: "otext \<Rightarrow> exn + json" where
  "json_loads (Json j) = Inr j"
| "json_loads (Padded j) = Inl JSONDecodeError"
| "json_loads (Raw s) = Inl JSONDecodeError"

text \<open>Truth value of an object in a condition (\<^verbatim>\<open>if x:\<close>, \<^verbatim>\<open>if not x:\<close>).\<close>

fun truthy :: "json \<Rightarrow> bool" where
  "truthy JNull = False"
| "truthy (JBool b) = b"
| "truthy (JNum n) = (n \<noteq> 0)"
| "truthy (JStr s) = (s \<noteq> [])"
| "truthy (JArr xs) = (xs \<noteq> [])"
| "truthy (JObj kvs) = (kvs \<noteq> [])"

text \<open>\<^verbatim>\<open>data.get(key, default)\<close>: only a \<^verbatim>\<open>dict\<close> has the method.\<close>

fun py_get :: "json \<Rightarrow> string \<Rightarrow> json \<Rightarrow> exn + json" where
  "py_get (JObj kvs) key dflt = Inr (case map_of kvs key of None \<Rightarrow> dflt | Some v \<Rightarrow> v)"
| "py_get _ key dflt = Inl AttributeError"

text \<open>\<^verbatim>\<open>data[key]\<close> with a string key.\<close>

fun py_getitem :: "json \<Rightarrow> string \<Rightarrow> exn + json" where
  "py_getitem (JObj kvs) key = (case map_of kvs key of None \<Rightarrow> Inl (KeyError key) | Some v \<Rightarrow> Inr v)"
| "py_getitem _ key = Inl TypeError"

text \<open>\<^verbatim>\<open>str(n)\<close> of an integer: its decimal digits.\<close>

definition digit :: "nat \<Rightarrow> char" where
  "digit d = ''0123456789'' ! d"

function str_nat :: "nat \<Rightarrow> string" where
  "str_nat n = (if n < 10 then [digit n] else str_nat (n div 10) @ [digit (n mod 10)])"
  by pat_completeness auto
termination
  by (relation "measure id") auto

declare str_nat.simps [simp del]

definition str_int :: "int \<Rightarrow> string" where
  "str_int i = (if i < 0 then CHR ''-'' # str_nat (nat (- i)) else str_nat (nat i))"

text \<open>
  \<^verbatim>\<open>str(x)\<close> and the interpolation \<^verbatim>\<open>{x}\<close> of an f-string. For a list or a dict Python
  prints its \<^verbatim>\<open>repr\<close>, which is library code and is taken as the parameter \<open>rp\<close>.
\<close>

fun py_str :: "(json \<Rightarrow> string) \<Rightarrow> json \<Rightarrow> string" where
  "py_str rp JNull = ''None''"
| "py_str rp (JBool b) = (if b then ''True'' else ''False'')"
| "py_str rp (JNum n) = str_int n"
| "py_str rp (JStr s) = s"
| "py_str rp (JArr xs) = rp (JArr xs)"
| "py_str rp (JObj kvs) = rp (JObj kvs)"

text \<open>
  \<^verbatim>\<open>s.strip()\<close> removes white space at both ends. The white space of Python below 256:
  the controls 9 to 13 and 28 to 31, the blank, the next-line control 133 and the
  no-break space 160.
\<close>

definition is_space :: "char \<Rightarrow> bool" where
  "is_space c = ((of_char c :: nat) \<in> {9, 10, 11, 12, 13, 28, 29, 30, 31, 32, 133, 160})"

definition strip :: "string \<Rightarrow> string" where
  "strip s = rev (dropWhile is_space (rev (dropWhile is_space s)))"

text \<open>
  \<^verbatim>\<open>strip()\<close> on the text of a process: a text that parses still parses to the same value,
  a padded text now parses, and a text that is rejected either way stays rejected.
\<close>

fun strip_text :: "otext \<Rightarrow> otext" where
  "strip_text (Json j) = Json j"
| "strip_text (Padded j) = Json j"
| "strip_text (Raw s) = Raw (strip s)"

text \<open>Truth value of a text: a text that parses is not empty.\<close>

fun nonempty :: "otext \<Rightarrow> bool" where
  "nonempty (Json j) = True"
| "nonempty (Padded j) = True"
| "nonempty (Raw s) = (s \<noteq> [])"

section \<open>The external tool\<close>

text \<open>
  One \<^verbatim>\<open>subprocess.run\<close> call is an \<open>invocation\<close>: the argument vector and, where the
  script passes \<^verbatim>\<open>input=\<close>, the text on standard input. What comes back is the completed
  process. The tool and the tracker behind it are a parameter: \<open>gh\<close> maps an invocation
  and the state of the outside world to the completed process and the next state of the
  world, so that every sequence of outcomes is some \<open>gh\<close>. The process always starts
  (the tool is installed); it may exit with any code and print anything.
\<close>

record invocation =
  argv :: "string list"
  stdin :: "string option"

record completed =
  returncode :: int
  stdout :: otext
  stderr :: string

record 'w env =
  gh :: "invocation \<Rightarrow> 'w \<Rightarrow> completed \<times> 'w"
  repr :: "json \<Rightarrow> string"

text \<open>
  A printed line is the sequence of the pieces of its f-string: literal text and the
  interpolated values. A pictograph that opens a message is left out of the literal
  together with the blank after it, and the arrow of the \<^verbatim>\<open>Linked\<close> messages is written
  \<^verbatim>\<open>->\<close>.
\<close>

datatype piece = Lit string | Val json | Txt otext | Err exn

text \<open>
  The state of a run: the outside world, the invocations made so far and the lines
  printed so far.
\<close>

record 'w state =
  world :: 'w
  calls :: "invocation list"
  printed :: "piece list list"

definition run :: "'w env \<Rightarrow> invocation \<Rightarrow> 'w state \<Rightarrow> completed \<times> 'w state" where
  "run e i s =
     (case gh e i (world s) of
        (result, w) \<Rightarrow> (result, s\<lparr>world := w, calls := calls s @ [i]\<rparr>))"

definition print :: "piece list \<Rightarrow> 'w state \<Rightarrow> 'w state" where
  "print line s = s\<lparr>printed := printed s @ [line]\<rparr>"

section \<open>The static id map of the linking scripts\<close>

text \<open>
  \<^verbatim>\<open>phase_map\<close>, the same literal in \<^verbatim>\<open>link_child_to_parent.py\<close>,
  \<^verbatim>\<open>link_issues_graphql.py\<close> and \<^verbatim>\<open>link_issues_hierarchy.py\<close>: parent epic to child
  issues, in insertion order.
\<close>

definition phase_map :: "(int \<times> int list) list" where
  "phase_map =
     [(45, [12, 13, 14, 15]),
      (46, [16, 17, 18, 19, 20]),
      (47, [21, 22, 23, 24, 25]),
      (48, [26, 27, 28, 29]),
      (49, [30, 31, 32, 33, 34]),
      (50, [35, 36, 37, 38])]"

section \<open>link_child_to_parent.py\<close>

definition get_issue_body :: "'w env \<Rightarrow> int \<Rightarrow> 'w state \<Rightarrow> (exn + json) \<times> 'w state" where
  "get_issue_body e issue_num s =
     (case run e \<lparr>argv = [''gh'', ''issue'', ''view'', str_int issue_num, ''--json'', ''body''],
                  stdin = None\<rparr> s of
        (result, s1) \<Rightarrow>
          if returncode result = 0 then
            (case json_loads (stdout result) of
               Inl x \<Rightarrow> (Inl x, s1)
             | Inr data \<Rightarrow> (py_get data ''body'' (JStr ''''), s1))
          else (Inr (JStr ''''), s1))"

definition update_issue_body :: "'w env \<Rightarrow> int \<Rightarrow> int \<Rightarrow> json \<Rightarrow> 'w state \<Rightarrow> 'w state" where
  "update_issue_body e issue_num parent_epic body s =
     (let new_body = ''**Parent Epic:** #'' @ str_int parent_epic @ ''\<newline>\<newline>''
                       @ py_str (repr e) body
      in case run e \<lparr>argv = [''gh'', ''issue'', ''edit'', str_int issue_num, ''-b'', ''-''],
                     stdin = Some new_body\<rparr> s of
           (result, s1) \<Rightarrow>
             if returncode result = 0 then
               print [Lit ''  Updated #'', Lit (str_int issue_num)] s1
             else
               print [Lit ''  ERROR updating #'', Lit (str_int issue_num), Lit '': '',
                      Lit (stderr result)] s1)"

text \<open>The inner loop of the script, over the child issues of one epic.\<close>

fun link_children :: "'w env \<Rightarrow> int \<Rightarrow> int list \<Rightarrow> 'w state \<Rightarrow> (exn + unit) \<times> 'w state" where
  "link_children e epic_num [] s = (Inr (), s)"
| "link_children e epic_num (issue_num # rest) s =
     (case get_issue_body e issue_num s of
        (Inl x, s1) \<Rightarrow> (Inl x, s1)
      | (Inr body, s1) \<Rightarrow>
          link_children e epic_num rest (update_issue_body e issue_num epic_num body s1))"

text \<open>The outer loop, over the items of the id map.\<close>

fun link_epics :: "'w env \<Rightarrow> (int \<times> int list) list \<Rightarrow> 'w state \<Rightarrow> (exn + unit) \<times> 'w state" where
  "link_epics e [] s = (Inr (), s)"
| "link_epics e ((epic_num, child_issues) # rest) s =
     (case link_children e epic_num child_issues
             (print [Lit ''Linking child issues to epic #'', Lit (str_int epic_num), Lit ''...''] s) of
        (Inl x, s1) \<Rightarrow> (Inl x, s1)
      | (Inr u, s1) \<Rightarrow> link_epics e rest s1)"

text \<open>The script: both loops over \<open>phase_map\<close>, then the summary line.\<close>

definition link_child_to_parent :: "'w env \<Rightarrow> 'w state \<Rightarrow> (exn + unit) \<times> 'w state" where
  "link_child_to_parent e s =
     (case link_epics e phase_map s of
        (Inl x, s1) \<Rightarrow> (Inl x, s1)
      | (Inr u, s1) \<Rightarrow>
          (Inr (), print [Lit ''\<newline>All child issues linked to parent epics!''] s1))"

section \<open>link_issues_graphql.py\<close>

text \<open>The text of the query that \<open>get_issue_id\<close> sends for an issue number.\<close>

definition id_query :: "int \<Rightarrow> string" where
  \<open>id_query issue_num =
     ''\<newline>    query {\<newline>    repository(owner: "goblinsan", name: "vizail") {\<newline>        issue(number: ''
     @ str_int issue_num
     @ '') {\<newline>          id\<newline>        }\<newline>      }\<newline>    }\<newline>    ''\<close>

definition get_issue_id :: "'w env \<Rightarrow> int \<Rightarrow> 'w state \<Rightarrow> (exn + json) \<times> 'w state" where
  "get_issue_id e issue_num s =
     (case run e \<lparr>argv = [''gh'', ''api'', ''graphql'', ''-f'', ''query='' @ id_query issue_num],
                  stdin = None\<rparr> s of
        (result, s1) \<Rightarrow>
          if returncode result = 0 then
            (case json_loads (stdout result) of
               Inl x \<Rightarrow> (Inl x, s1)
             | Inr data \<Rightarrow>
                 (case py_getitem data ''data'' of
                    Inl x \<Rightarrow> (Inl x, s1)
                  | Inr d \<Rightarrow>
                      (case py_getitem d ''repository'' of
                         Inl x \<Rightarrow> (Inl x, s1)
                       | Inr r \<Rightarrow>
                           (case py_getitem r ''issue'' of
                              Inl x \<Rightarrow> (Inl x, s1)
                            | Inr i \<Rightarrow> (py_getitem i ''id'', s1)))))
          else (Inr JNull, s1))"

text \<open>The text of the mutation that \<open>link_sub_issue\<close> sends.\<close>

definition mutation :: string where
  \<open>mutation =
     ''\<newline>        mutation AddSubIssue($issueId: ID!, $subIssueId: ID!, $replaceParent: Boolean) {\<newline>            addSubIssue(input: {issueId: $issueId, subIssueId: $subIssueId, replaceParent: $replaceParent}) {\<newline>                subIssue {\<newline>                    id\<newline>                    number: number\<newline>                    parent { number }\<newline>                }\<newline>            }\<newline>        }\<newline>        ''\<close>

definition link_sub_issue :: "'w env \<Rightarrow> json \<Rightarrow> json \<Rightarrow> 'w state \<Rightarrow> (bool \<times> string) \<times> 'w state" where
  "link_sub_issue e parent_id sub_issue_id s =
     (case run e \<lparr>argv = [''gh'', ''api'', ''graphql'',
                          ''-f'', ''query='' @ mutation,
                          ''-f'', ''issueId='' @ py_str (repr e) parent_id,
                          ''-f'', ''subIssueId='' @ py_str (repr e) sub_issue_id,
                          ''-F'', ''replaceParent=true''],
                  stdin = None\<rparr> s of
        (result, s1) \<Rightarrow> ((returncode result = 0, stderr result), s1))"

text \<open>
  The script keeps the ids it has fetched in the dict \<^verbatim>\<open>issue_ids\<close>, a map from issue
  numbers to what \<open>get_issue_id\<close> returned. First loop: the id of every epic.
\<close>

fun fetch_epic_ids ::
  "'w env \<Rightarrow> int list \<Rightarrow> (int \<rightharpoonup> json) \<Rightarrow> 'w state \<Rightarrow> (exn + (int \<rightharpoonup> json)) \<times> 'w state" where
  "fetch_epic_ids e [] issue_ids s = (Inr issue_ids, s)"
| "fetch_epic_ids e (epic_num # rest) issue_ids s =
     (case get_issue_id e epic_num s of
        (Inl x, s1) \<Rightarrow> (Inl x, s1)
      | (Inr v, s1) \<Rightarrow>
          fetch_epic_ids e rest (issue_ids(epic_num \<mapsto> v))
            (print [Lit ''  Epic #'', Lit (str_int epic_num), Lit '': '', Val v] s1))"

text \<open>Second loop: the id of every child that is not in the dict yet.\<close>

fun fetch_child_ids ::
  "'w env \<Rightarrow> int list \<Rightarrow> (int \<rightharpoonup> json) \<Rightarrow> 'w state \<Rightarrow> (exn + (int \<rightharpoonup> json)) \<times> 'w state" where
  "fetch_child_ids e [] issue_ids s = (Inr issue_ids, s)"
| "fetch_child_ids e (child_num # rest) issue_ids s =
     (if child_num \<notin> dom issue_ids then
        (case get_issue_id e child_num s of
           (Inl x, s1) \<Rightarrow> (Inl x, s1)
         | (Inr v, s1) \<Rightarrow> fetch_child_ids e rest (issue_ids(child_num \<mapsto> v)) s1)
      else fetch_child_ids e rest issue_ids s)"

fun fetch_all_child_ids ::
  "'w env \<Rightarrow> int list list \<Rightarrow> (int \<rightharpoonup> json) \<Rightarrow> 'w state \<Rightarrow> (exn + (int \<rightharpoonup> json)) \<times> 'w state" where
  "fetch_all_child_ids e [] issue_ids s = (Inr issue_ids, s)"
| "fetch_all_child_ids e (child_nums # rest) issue_ids s =
     (case fetch_child_ids e child_nums issue_ids s of
        (Inl x, s1) \<Rightarrow> (Inl x, s1)
      | (Inr issue_ids1, s1) \<Rightarrow> fetch_all_child_ids e rest issue_ids1 s1)"

text \<open>
  Third loop, inner part: the children of one epic whose id is \<open>parent_id\<close>.
  \<^verbatim>\<open>issue_ids.get(child_num)\<close> is \<^verbatim>\<open>None\<close> for a number that is not in the dict.
\<close>

fun link_to_epic ::
  "'w env \<Rightarrow> (int \<rightharpoonup> json) \<Rightarrow> int \<Rightarrow> json \<Rightarrow> int list \<Rightarrow> 'w state \<Rightarrow> 'w state" where
  "link_to_epic e issue_ids epic_num parent_id [] s = s"
| "link_to_epic e issue_ids epic_num parent_id (child_num # rest) s =
     (let child_id = (case issue_ids child_num of None \<Rightarrow> JNull | Some v \<Rightarrow> v)
      in if \<not> truthy child_id then
           link_to_epic e issue_ids epic_num parent_id rest
             (print [Lit ''  Could not get ID for issue #'', Lit (str_int child_num)] s)
         else
           (case link_sub_issue e parent_id child_id s of
              ((success, err), s1) \<Rightarrow>
                link_to_epic e issue_ids epic_num parent_id rest
                  (if success then
                     print [Lit ''  Linked #'', Lit (str_int child_num), Lit '' -> #'',
                            Lit (str_int epic_num)] s1
                   else
                     print [Lit ''  ERROR linking #'', Lit (str_int child_num), Lit '': '',
                            Lit (take 100 err)] s1)))"

text \<open>Third loop, outer part: the items of the id map.\<close>

fun link_all ::
  "'w env \<Rightarrow> (int \<rightharpoonup> json) \<Rightarrow> (int \<times> int list) list \<Rightarrow> 'w state \<Rightarrow> 'w state" where
  "link_all e issue_ids [] s = s"
| "link_all e issue_ids ((epic_num, child_issues) # rest) s =
     (let parent_id = (case issue_ids epic_num of None \<Rightarrow> JNull | Some v \<Rightarrow> v)
      in if \<not> truthy parent_id then
           link_all e issue_ids rest
             (print [Lit ''Could not get ID for epic #'', Lit (str_int epic_num)] s)
         else
           link_all e issue_ids rest
             (link_to_epic e issue_ids epic_num parent_id child_issues
                (print [Lit ''Linking to epic #'', Lit (str_int epic_num), Lit ''...''] s)))"

text \<open>
  The script over an id map \<open>pm\<close>: the three loops and the lines printed between them.
  An exception of \<open>get_issue_id\<close> is caught nowhere and ends the run.
\<close>

definition link_issues_graphql_over ::
  "'w env \<Rightarrow> (int \<times> int list) list \<Rightarrow> 'w state \<Rightarrow> (exn + unit) \<times> 'w state" where
  "link_issues_graphql_over e pm s =
     (case fetch_epic_ids e (map fst pm) Map.empty (print [Lit ''Fetching issue IDs...\<newline>''] s) of
        (Inl x, s1) \<Rightarrow> (Inl x, s1)
      | (Inr issue_ids1, s1) \<Rightarrow>
          (case fetch_all_child_ids e (map snd pm) issue_ids1 s1 of
             (Inl x, s2) \<Rightarrow> (Inl x, s2)
           | (Inr issue_ids, s2) \<Rightarrow>
               (Inr (),
                print [Lit ''\<newline>All child issues linked to parent epics!'']
                  (link_all e issue_ids pm
                     (print [Lit ''\<newline>Linking '',
                             Lit (str_int (int (sum_list (map (\<lambda>v. length (snd v)) pm)))),
                             Lit '' child issues to parent epics...\<newline>''] s2)))))"

definition link_issues_graphql :: "'w env \<Rightarrow> 'w state \<Rightarrow> (exn + unit) \<times> 'w state" where
  "link_issues_graphql e s = link_issues_graphql_over e phase_map s"

section \<open>The tracker behind the GraphQL calls\<close>

text \<open>
  Modelled from the spec: the issue tracker that answers the GraphQL calls is not code of
  the repository. Section 4.1 of the specification gives its two operations:
  \<^verbatim>\<open>queryIssueId\<close> resolves an issue number to the opaque global identifier, and
  \<^verbatim>\<open>linkSubIssue\<close> with \<^verbatim>\<open>replaceParent=true\<close> establishes the parent of a child and
  overwrites rather than duplicates. The tracker holds the issues that exist, with their
  global identifiers, and the parent of each child.
\<close>

record tracker =
  issues :: "(int \<times> string) list"
  parent :: "string \<rightharpoonup> string"

text \<open>
  Modelled from the spec: linking with \<^verbatim>\<open>replaceParent=true\<close> overwrites the parent of
  the child.
\<close>

definition set_parent :: "string \<times> string \<Rightarrow> (string \<rightharpoonup> string) \<Rightarrow> (string \<rightharpoonup> string)" where
  "set_parent cp m = m(fst cp \<mapsto> snd cp)"

definition ok :: "otext \<Rightarrow> completed" where
  "ok t = \<lparr>returncode = 0, stdout = t, stderr = []\<rparr>"

definition failed :: "string \<Rightarrow> completed" where
  "failed msg = \<lparr>returncode = 1, stdout = Raw [], stderr = msg\<rparr>"

text \<open>
  Modelled from the spec: the answer of the tracker to one invocation. A query for the id
  of an existing issue prints the id, of a missing issue fails. A mutation that names two
  existing issues sets the parent of the child; anything else fails and changes nothing.
\<close>

definition tracker_gh :: "invocation \<Rightarrow> tracker \<Rightarrow> completed \<times> tracker" where
  "tracker_gh i t =
     (let a = argv i in
      if length a = 5 \<and> take 4 a = [''gh'', ''api'', ''graphql'', ''-f''] then
        (case find (\<lambda>(n, gid). a ! 4 = ''query='' @ id_query n) (issues t) of
           Some (n, gid) \<Rightarrow>
             (ok (Json (JObj [(''data'', JObj [(''repository'',
                     JObj [(''issue'', JObj [(''id'', JStr gid)])])])])), t)
         | None \<Rightarrow> (failed ''Could not resolve to an Issue'', t))
      else if length a = 11 \<and> take 4 a = [''gh'', ''api'', ''graphql'', ''-f'']
              \<and> a ! 4 = ''query='' @ mutation
              \<and> a ! 5 = ''-f'' \<and> take 8 (a ! 6) = ''issueId=''
              \<and> a ! 7 = ''-f'' \<and> take 11 (a ! 8) = ''subIssueId=''
              \<and> a ! 9 = ''-F'' \<and> a ! 10 = ''replaceParent=true''
              \<and> drop 8 (a ! 6) \<in> set (map snd (issues t))
              \<and> drop 11 (a ! 8) \<in> set (map snd (issues t)) then
        (ok (Json (JObj [(''data'', JObj [(''addSubIssue'', JObj [(''subIssue'',
                JObj [(''id'', JStr (drop 11 (a ! 8)))])])])])),
         t\<lparr>parent := set_parent (drop 11 (a ! 8), drop 8 (a ! 6)) (parent t)\<rparr>)
      else (failed ''unknown request'', t))"

definition tracker_env :: "(json \<Rightarrow> string) \<Rightarrow> tracker env" where
  "tracker_env rp = \<lparr>gh = tracker_gh, repr = rp\<rparr>"

section \<open>The tracker behind the body-rewrite calls\<close>

text \<open>
  Modelled from the spec: the issue tracker that answers the view and edit calls of
  \<^verbatim>\<open>link_child_to_parent.py\<close> is not code of the repository. Section 4.1 of the
  specification gives the edit operation: \<^verbatim>\<open>editIssueBody(issueId, newBody)\<close> overwrites the
  full body, with no server-side patching. The tracker holds the body of every issue that
  exists, under the decimal text of the issue number as the command line carries it.
\<close>

type_synonym bodies = "string \<rightharpoonup> string"

text \<open>
  Modelled from the spec: the answer of the tracker to one invocation. The view call
  \<^verbatim>\<open>gh issue view N --json body\<close> prints the object that holds the stored body of an
  existing issue and fails for a missing one. The edit call \<^verbatim>\<open>gh issue edit N -b -\<close> takes
  the new body to be the text that the script passes on standard input and stores it in
  place of the body of an existing issue; for a missing issue, or with nothing on standard
  input, it fails and changes nothing. Anything else fails and changes nothing.
\<close>

definition body_gh :: "invocation \<Rightarrow> bodies \<Rightarrow> completed \<times> bodies" where
  "body_gh i t =
     (let a = argv i in
      if length a = 6 \<and> take 3 a = [''gh'', ''issue'', ''view'']
           \<and> drop 4 a = [''--json'', ''body''] then
        (case t (a ! 3) of
           Some b \<Rightarrow> (ok (Json (JObj [(''body'', JStr b)])), t)
         | None \<Rightarrow> (failed ''Could not resolve to an Issue'', t))
      else if length a = 6 \<and> take 3 a = [''gh'', ''issue'', ''edit'']
                \<and> drop 4 a = [''-b'', ''-''] then
        (case (t (a ! 3), stdin i) of
           (Some b, Some new_body) \<Rightarrow> (ok (Raw []), t(a ! 3 \<mapsto> new_body))
         | _ \<Rightarrow> (failed ''Could not resolve to an Issue'', t))
      else (failed ''unknown request'', t))"

definition body_env :: "(json \<Rightarrow> string) \<Rightarrow> bodies env" where
  "body_env rp = \<lparr>gh = body_gh, repr = rp\<rparr>"

section \<open>create_epics.py\<close>

definition REPO_create_epics :: string where
  "REPO_create_epics = ''goblinsan/vizail''"

text \<open>
  \<open>create_epic(title, body, *labels)\<close> of \<^verbatim>\<open>create_epics.py\<close>. The parse, the lookup of
  the number and the label calls sit in one \<^verbatim>\<open>try\<close> whose handler prints the exception
  and returns \<^verbatim>\<open>None\<close>. The label calls do not look at what comes back.
\<close>

definition create_epic_create_epics ::
  "'w env \<Rightarrow> string \<Rightarrow> string \<Rightarrow> string list \<Rightarrow> 'w state \<Rightarrow> json \<times> 'w state" where
  "create_epic_create_epics e title body labels s =
     (case run e \<lparr>argv = [''gh'', ''api'', ''-X'', ''POST'',
                          ''/repos/'' @ REPO_create_epics @ ''/issues'',
                          ''-f'', ''title='' @ title,
                          ''-f'', ''body='' @ body],
                  stdin = None\<rparr> s of
        (result, s1) \<Rightarrow>
          if returncode result \<noteq> 0 then
            (JNull, print [Lit ''  '', Lit title, Lit '': '', Lit (take 80 (stderr result))] s1)
          else
            (case json_loads (stdout result) of
               Inl x \<Rightarrow> (JNull, print [Lit ''  Parse error: '', Err x] s1)
             | Inr data \<Rightarrow>
                 (case py_get data ''number'' JNull of
                    Inl x \<Rightarrow> (JNull, print [Lit ''  Parse error: '', Err x] s1)
                  | Inr num \<Rightarrow>
                      (num,
                       fold (\<lambda>label s2.
                               snd (run e \<lparr>argv = [''gh'', ''issue'', ''edit'', py_str (repr e) num,
                                                   ''--add-label'', label],
                                           stdin = None\<rparr> s2))
                            labels
                            (print [Lit ''  Epic #'', Val num, Lit '': '', Lit (take 40 title)] s1)))))"

section \<open>create_github_issues.py\<close>

definition REPO_create_github_issues :: string where
  "REPO_create_github_issues = ''goblinsan/visual-flow''"

definition run_gh :: "'w env \<Rightarrow> string list \<Rightarrow> 'w state \<Rightarrow> (otext \<times> string \<times> int) \<times> 'w state" where
  "run_gh e args s =
     (case run e \<lparr>argv = ''gh'' # args, stdin = None\<rparr> s of
        (result, s1) \<Rightarrow>
          ((strip_text (stdout result), strip (stderr result), returncode result), s1))"

text \<open>
  \<open>create_issue(title, body, milestone_num, *labels)\<close> of \<^verbatim>\<open>create_github_issues.py\<close>.
  The bare \<^verbatim>\<open>except\<close> returns \<^verbatim>\<open>None\<close> without a message.
\<close>

definition create_issue_create_github_issues ::
  "'w env \<Rightarrow> string \<Rightarrow> string \<Rightarrow> json \<Rightarrow> string list \<Rightarrow> 'w state \<Rightarrow> json \<times> 'w state" where
  "create_issue_create_github_issues e title body milestone_num labels s =
     (let cmd = [''api'', ''-X'', ''POST'',
                 ''/repos/'' @ REPO_create_github_issues @ ''/issues'',
                 ''-f'', ''title='' @ title,
                 ''-f'', ''body='' @ body]
                @ (if truthy milestone_num
                   then [''-f'', ''milestone='' @ py_str (repr e) milestone_num] else [])
      in case run_gh e cmd
                (print [Lit ''    Creating issue: '', Lit (take 50 title), Lit ''...''] s) of
           ((out, err, code), s1) \<Rightarrow>
             if code \<noteq> 0 then
               (JNull, print [Lit ''    Error: '', Lit (take 80 err)] s1)
             else
               (case json_loads out of
                  Inl x \<Rightarrow> (JNull, s1)
                | Inr data \<Rightarrow>
                    (case py_get data ''number'' JNull of
                       Inl x \<Rightarrow> (JNull, s1)
                     | Inr num \<Rightarrow>
                         (num,
                          (if labels \<noteq> [] then
                             fold (\<lambda>label s2.
                                     snd (run_gh e [''issue'', ''edit'', py_str (repr e) num,
                                                    ''--add-label'', label] s2))
                                  labels
                           else id)
                            (print [Lit ''    Issue #'', Val num] s1)))))"

section \<open>link_issues_hierarchy.py\<close>




text \<open>
  The catalog \<^verbatim>\<open>PHASES\<close>: a dict from the phase name to its description, its duration
  and its issues, each with a title and a body. The dict is read in insertion order.
\<close>

record issue =
  issue_title :: string
  issue_body :: string

record phase_data =
  phase_description :: string
  phase_duration :: string
  phase_issues :: "issue list"

definition PHASES :: "(string \<times> phase_data) list" where
  \<open>PHASES =
     [(''Phase 0: Prep & Hardening'',
       \<lparr>phase_description = ''Stabilize codebase, improve type safety, add telemetry, prepare for cloud migration.'',
        phase_duration = ''2-3 weeks'',
        phase_issues =
          [\<lparr>issue_title = ''Complete Command Pattern Integration'',
            issue_body =
              (''## Description\<newline>''
              @ ''Audit all `setSpec` calls in CanvasStage.tsx and ensure all mutations go through the command system.\<newline>''
              @ ''\<newline>''
              @ ''## Tasks\<newline>''
              @ ''- Audit all `setSpec` calls in CanvasStage.tsx\<newline>''
              @ ''- Route transform operations through `createTransformNodesCommand`\<newline>''
              @ ''- Route property updates through `createUpdateNodePropsCommand`\<newline>''
              @ ''- Ensure all paths use `setSpec` wrapper with history tracking\<newline>''
              @ ''- Add tests for any newly routed commands\<newline>''
              @ ''\<newline>''
              @ ''## Acceptance Criteria\<newline>''
              @ ''- All spec mutations go through command system\<newline>''
              @ ''- New tests added for routed commands\<newline>''
              @ ''- No behavior changes to user-facing functionality\<newline>''
              @ ''\<newline>''
              @ ''## Labels\<newline>''
              @ ''enhancement, tech-debt, priority-high'')\<rparr>,
           \<lparr>issue_title = ''Add Schema Versioning & Migration'',
            issue_body =
              (''## Description\<newline>''
              @ ''Add version field to LayoutSpec and create migration infrastructure for future schema changes.\<newline>''
              @ ''\<newline>''
              @ ''## Tasks\<newline>''
              @ ''- Add `version: number` field to LayoutSpec interface\<newline>''
              @ ''- Create `src/utils/migration.ts` with `migrateSpec()` function\<newline>''
              @ ''- Handle missing version (assume v0)\<newline>''
              @ ''- Add migration test cases for future schema changes\<newline>''
              @ ''- Update useDesignPersistence to call migration on load\<newline>''
              @ ''\<newline>''
              @ ''## Acceptance Criteria\<newline>''
              @ ''- LayoutSpec has `version` field with migration path\<newline>''
              @ ''- New localStorage data loads without migration needed\<newline>''
              @ ''- Old data can be migrated forward\<newline>''
              @ ''\<newline>''
              @ ''## Labels\<newline>''
              @ ''enhancement, data-integrity'')\<rparr>,
           \<lparr>issue_title = ''Add Error Boundary & Telemetry'',
            issue_body =
              (''## Description\<newline>''
              @ ''Add error boundary around canvas and basic telemetry hook for observability.\<newline>''
              @ ''\<newline>''
              @ ''## Tasks\<newline>''
              @ ''- Create ErrorBoundary component wrapping CanvasStage\<newline>''
              @ ''- Show friendly error UI with "Reset" option\<newline>''
              @ ''- Create useTelemetry hook (stub implementation)\<newline>''
              @ ''- Log: canvas-load, node-create, node-delete, error events\<newline>''
              @ ''- Add to CanvasApp component tree\<newline>''
              @ ''\<newline>''
              @ ''## Acceptance Criteria\<newline>''
              @ ''- App gracefully handles canvas errors\<newline>''
              @ ''- Telemetry hook integrated in key paths\<newline>''
              @ ''- Users can recover from errors\<newline>''
              @ ''\<newline>''
              @ ''## Labels\<newline>''
              @ ''enhancement, reliability'')\<rparr>,
           \<lparr>issue_title = ''Lint & Type Safety Pass'',
            issue_body =
              (''## Description\<newline>''
              @ ''Eliminate remaining `any` types and improve type safety across the codebase.\<newline>''
              @ ''\<newline>''
              @ ''## Tasks\<newline>''
              @ ''- Run `lint:strict` and fix all errors\<newline>''
              @ ''- Eliminate remaining `any` types in commands/\<newline>''
              @ ''- Add explicit return types to all public functions\<newline>''
              @ ''- Document any intentional `any` with `// eslint-disable-next-line`\<newline>''
              @ ''\<newline>''
              @ ''## Acceptance Criteria\<newline>''
              @ ''- All errors pass `STRICT_TYPES=1` linting\<newline>''
              @ ''- No new `any` types introduced without documentation\<newline>''
              @ ''\<newline>''
              @ ''## Labels\<newline>''
              @ ''tech-debt, types'')\<rparr>]\<rparr>),
      (''Phase 1: Cloud Persistence + Sharing'',
       \<lparr>phase_description = ''Replace localStorage with cloud storage, enable canvas sharing with basic roles.'',
        phase_duration = ''3-4 weeks'',
        phase_issues =
          [\<lparr>issue_title = ''Set Up Cloudflare Infrastructure'',
            issue_body =
              (''## Description\<newline>''
              @ ''Initialize Cloudflare Pages and Workers infrastructure for cloud deployment.\<newline>''
              @ ''\<newline>''
              @ ''## Tasks\<newline>''
              @ ''- Create Pages project for frontend\<newline>''
              @ ''- Create Worker project for API (`workers/api/`)\<newline>''
              @ ''- Set up D1 database with schema\<newline>''
              @ ''- Configure wrangler.toml for dev/staging/prod\<newline>''
              @ ''- Set up GitHub Actions for deployment\<newline>''
              @ ''- Document local dev setup in README\<newline>''
              @ ''\<newline>''
              @ ''## Acceptance Criteria\<newline>''
              @ ''- App deployable to Cloudflare Pages\<newline>''
              @ ''- Worker project scaffolded and configured\<newline>''
              @ ''- D1 database created with tables\<newline>''
              @ ''- Deployment automated via GitHub Actions\<newline>''
              @ ''\<newline>''
              @ ''## Labels\<newline>''
              @ ''infrastructure, priority-high'')\<rparr>,
           \<lparr>issue_title = ''Implement Canvas CRUD API'',
            issue_body =
              (''## Description\<newline>''
              @ ''Build REST API endpoints for canvas management (create, read, update, delete).\<newline>''
              @ ''\<newline>''
              @ ''## Endpoints\<newline>''
              @ ''- POST /api/canvases - Create canvas\<newline>''
              @ ''- GET /api/canvases - List user's canvases\<newline>''
              @ ''- GET /api/canvases/:id - Get canvas (metadata + snapshot)\<newline>''
              @ ''- PUT /api/canvases/:id - Update metadata\<newline>''
              @ ''- DELETE /api/canvases/:id - Delete canvas\<newline>''
              @ ''\<newline>''
              @ ''## Tasks\<newline>''
              @ ''- Implement all CRUD endpoints in Worker\<newline>''
              @ ''- Add input validation with Zod\<newline>''
              @ ''- Add error handling middleware\<newline>''
              @ ''- Add unit tests for each endpoint\<newline>''
              @ ''- Document API with examples\<newline>''
              @ ''\<newline>''
              @ ''## Acceptance Criteria\<newline>''
              @ ''- All endpoints implemented and tested\<newline>''
              @ ''- Input validation prevents invalid data\<newline>''
              @ ''- Proper HTTP status codes returned\<newline>''
              @ ''- Error messages clear and actionable\<newline>''
              @ ''\<newline>''
              @ ''## Labels\<newline>''
              @ ''api, priority-high'')\<rparr>,
           \<lparr>issue_title = ''Create useCloudPersistence Hook'',
            issue_body =
              (''## Description\<newline>''
              @ ''Build drop-in replacement for useDesignPersistence that syncs with cloud backend.\<newline>''
              @ ''\<newline>''
              @ ''## Tasks\<newline>''
              @ ''- Create useCloudPersistence hook\<newline>''
              @ ''- Fetch canvas on mount, autosave on change (debounced)\<newline>''
              @ ''- Handle 401/403 errors with retry logic\<newline>''
              @ ''- Implement offline detection with localStorage fallback\<newline>''
              @ ''- Sync on reconnect\<newline>''
              @ ''- Add loading/saving states\<newline>''
              @ ''\<newline>''
              @ ''## Acceptance Criteria\<newline>''
              @ ''- Existing app works identically with cloud backend\<newline>''
              @ ''- Can save/load canvases from cloud\<newline>''
              @ ''- Offline mode works with sync on reconnect\<newline>''
              @ ''- Loading states visible to user\<newline>''
              @ ''\<newline>''
              @ ''## Labels\<newline>''
              @ ''frontend, priority-high'')\<rparr>,
           \<lparr>issue_title = ''Implement Sharing & Memberships'',
            issue_body =
              (''## Description\<newline>''
              @ ''Add ability to share canvases with other users with role-based access control.\<newline>''
              @ ''\<newline>''
              @ ''## Endpoints\<newline>''
              @ ''- POST /api/canvases/:id/members - Add collaborator\<newline>''
              @ ''- GET /api/canvases/:id/members - List collaborators\<newline>''
              @ ''- DELETE /api/canvases/:id/members/:uid - Remove collaborator\<newline>''
              @ ''- POST /api/canvases/:id/invite-link - Generate invite link\<newline>''
              @ ''\<newline>''
              @ ''## Tasks\<newline>''
              @ ''- Build ShareDialog component (email input)\<newline>''
              @ ''- Implement membership endpoints\<newline>''
              @ ''- Add role selection (editor/viewer)\<newline>''
              @ ''- Add role checks to API\<newline>''
              @ ''- Implement role enforcement in permissions\<newline>''
              @ ''\<newline>''
              @ ''## Acceptance Criteria\<newline>''
              @ ''- Users can share canvases via email\<newline>''
              @ ''- Viewers cannot edit shared canvases\<newline>''
              @ ''- Owners can manage collaborators\<newline>''
              @ ''- Invite links work correctly\<newline>''
              @ ''\<newline>''
              @ ''## Labels\<newline>''
              @ ''api, frontend'')\<rparr>,
           \<lparr>issue_title = ''Add Cloudflare Access Integration'',
            issue_body =
              (''## Description\<newline>''
              @ ''Implement authentication via Cloudflare Access for Phase 1 (friends-only mode).\<newline>''
              @ ''\<newline>''
              @ ''## Tasks\<newline>''
              @ ''- Configure Access application for app domain\<newline>''
              @ ''- Parse CF-Access-JWT-Assertion header in Worker\<newline>''
              @ ''- Extract user email for identity\<newline>''
              @ ''- Create/find user in D1 on first access\<newline>''
              @ ''- Handle Access allowlist management\<newline>''
              @ ''\<newline>''
              @ ''## Acceptance Criteria\<newline>''
              @ ''- Only allowlisted users can access app\<newline>''
              @ ''- User identity extracted from Access token\<newline>''
              @ ''- User profile created/updated automatically\<newline>''
              @ ''\<newline>''
              @ ''## Labels\<newline>''
              @ ''auth, infrastructure'')\<rparr>]\<rparr>),
      (''Phase 2: Real-Time Collaboration MVP'',
       \<lparr>phase_description = ''Multiple users editing same canvas simultaneously with presence indicators.'',
        phase_duration = ''4-5 weeks'',
        phase_issues =
          [\<lparr>issue_title = ''Set Up Yjs + Durable Objects'',
            issue_body =
              (''## Description\<newline>''
              @ ''Initialize Yjs CRDT library and create Durable Object infrastructure for realtime rooms.\<newline>''
              @ ''\<newline>''
              @ ''## Tasks\<newline>''
              @ ''- Add yjs, y-websocket dependencies\<newline>''
              @ ''- Create Durable Object class CanvasRoom\<newline>''
              @ ''- Implement WebSocket upgrade handling\<newline>''
              @ ''- Store Yjs doc state in DO storage\<newline>''
              @ ''- Handle join/leave/update messages\<newline>''
              @ ''- Add connection heartbeat/ping-pong\<newline>''
              @ ''\<newline>''
              @ ''## Acceptance Criteria\<newline>''
              @ ''- Yjs integrated with proper types\<newline>''
              @ ''- Durable Objects can store canvas state\<newline>''
              @ ''- WebSocket connections work reliably\<newline>''
              @ ''- State persists across reconnects\<newline>''
              @ ''\<newline>''
              @ ''## Labels\<newline>''
              @ ''infrastructure, realtime, priority-high'')\<rparr>,
           \<lparr>issue_title = ''Create Yjs-LayoutSpec Conversion Layer'',
            issue_body =
              (''## Description\<newline>''
              @ ''Build conversion functions between LayoutSpec and Yjs document structures.\<newline>''
              @ ''\<newline>''
              @ ''## Tasks\<newline>''
              @ ''- Implement YjsCanvasDoc wrapper class\<newline>''
              @ ''- Create layoutSpecToYjs(spec, ydoc) function\<newline>''
              @ ''- Create yjsToLayoutSpec(ydoc) function\<newline>''
              @ ''- Handle all node types correctly\<newline>''
              @ ''- Preserve z-order via Y.Array\<newline>''
              @ ''- Add comprehensive unit tests\<newline>''
              @ ''\<newline>''
              @ ''## Acceptance Criteria\<newline>''
              @ ''- Conversion functions handle all node types\<newline>''
              @ ''- Round-trip conversion is lossless\<newline>''
              @ ''- Z-order preserved correctly\<newline>''
              @ ''- All tests passing\<newline>''
              @ ''\<newline>''
              @ ''## Labels\<newline>''
              @ ''realtime, data'')\<rparr>,
           \<lparr>issue_title = ''Build useRealtimeCanvas Hook'',
            issue_body =
              (''## Description\<newline>''
              @ ''Create React hook for managing realtime canvas connections and state sync.\<newline>''
              @ ''\<newline>''
              @ ''## Tasks\<newline>''
              @ ''- Implement WebSocket connection management\<newline>''
              @ ''- Sync Yjs doc with provider\<newline>''
              @ ''- Integrate awareness protocol\<newline>''
              @ ''- Implement reconnect with exponential backoff\<newline>''
              @ ''- Handle state merging on reconnect\<newline>''
              @ ''- Expose API: spec, setSpec (optimistic), presence\<newline>''
              @ ''\<newline>''
              @ ''## Acceptance Criteria\<newline>''
              @ ''- Hook provides seamless realtime experience\<newline>''
              @ ''- Automatic reconnect works smoothly\<newline>''
              @ ''- State consistent across clients\<newline>''
              @ ''- No data loss on network issues\<newline>''
              @ ''\<newline>''
              @ ''## Labels\<newline>''
              @ ''frontend, realtime'')\<rparr>,
           \<lparr>issue_title = ''Implement Presence UI'',
            issue_body =
              (''## Description\<newline>''
              @ ''Build visual indicators showing other users' cursors and selections.\<newline>''
              @ ''\<newline>''
              @ ''## Tasks\<newline>''
              @ ''- Create cursor overlay component\<newline>''
              @ ''- Create selection box overlay component\<newline>''
              @ ''- Build user list sidebar showing who's online\<newline>''
              @ ''- Assign distinct colors to each user\<newline>''
              @ ''- Show user avatars and names\<newline>''
              @ ''- Update presence in real-time\<newline>''
              @ ''\<newline>''
              @ ''## Acceptance Criteria\<newline>''
              @ ''- Other users' cursors visible\<newline>''
              @ ''- Other users' selections visible\<newline>''
              @ ''- User list shows active collaborators\<newline>''
              @ ''- Colors assigned consistently\<newline>''
              @ ''\<newline>''
              @ ''## Labels\<newline>''
              @ ''frontend, realtime'')\<rparr>,
           \<lparr>issue_title = ''Add Connection Status Indicator'',
            issue_body =
              (''## Description\<newline>''
              @ ''Display connection status and sync indicators to users.\<newline>''
              @ ''\<newline>''
              @ ''## Tasks\<newline>''
              @ ''- Show connected/connecting/disconnected states\<newline>''
              @ ''- Add retry button for manual reconnect\<newline>''
              @ ''- Show offline mode indicator\<newline>''
              @ ''- Display sync status (saving/saved/error)\<newline>''
              @ ''- Add helpful error messages\<newline>''
              @ ''\<newline>''
              @ ''## Acceptance Criteria\<newline>''
              @ ''- Users know connection state at all times\<newline>''
              @ ''- Offline mode clearly indicated\<newline>''
              @ ''- Errors are actionable\<newline>''
              @ ''\<newline>''
              @ ''## Labels\<newline>''
              @ ''frontend, ux'')\<rparr>]\<rparr>),
      (''Phase 3: Real-Time Polish'',
       \<lparr>phase_description = ''Production-quality collaboration with soft locks, conflict UI, and checkpoints.'',
        phase_duration = ''2-3 weeks'',
        phase_issues =
          [\<lparr>issue_title = ''Implement Soft Locks'',
            issue_body =
              (''## Description\<newline>''
              @ ''Add soft lock system to prevent conflicts during drag/resize operations.\<newline>''
              @ ''\<newline>''
              @ ''## Tasks\<newline>''
              @ ''- Track dragging state in awareness\<newline>''
              @ ''- Show lock icon on nodes being dragged\<newline>''
              @ ''- Prevent selection of locked nodes (with toast)\<newline>''
              @ ''- Show ghost position preview for locked drags\<newline>''
              @ ''- Release lock on drag end\<newline>''
              @ ''- Handle lock timeout on disconnect\<newline>''
              @ ''\<newline>''
              @ ''## Acceptance Criteria\<newline>''
              @ ''- Dragging node shows lock to others\<newline>''
              @ ''- Locked nodes cannot be selected\<newline>''
              @ ''- Locks release properly on drag end\<newline>''
              @ ''- No stuck locks from crashed clients\<newline>''
              @ ''\<newline>''
              @ ''## Labels\<newline>''
              @ ''realtime, ux'')\<rparr>,
           \<lparr>issue_title = ''Add Conflict Notifications'',
            issue_body =
              (''## Description\<newline>''
              @ ''Show non-blocking notifications when remote changes affect selected nodes.\<newline>''
              @ ''\<newline>''
              @ ''## Tasks\<newline>''
              @ ''- Detect when remote change affects selection\<newline>''
              @ ''- Show non-blocking toast notification\<newline>''
              @ ''- Display conflicting user's name and action\<newline>''
              @ ''- Option to undo local pending changes\<newline>''
              @ ''- Auto-dismiss after timeout\<newline>''
              @ ''\<newline>''
              @ ''## Acceptance Criteria\<newline>''
              @ ''- Conflicts detected accurately\<newline>''
              @ ''- Notifications non-blocking and helpful\<newline>''
              @ ''- Users can recover from conflicts easily\<newline>''
              @ ''\<newline>''
              @ ''## Labels\<newline>''
              @ ''realtime, ux'')\<rparr>,
           \<lparr>issue_title = ''Implement Checkpoint System'',
            issue_body =
              (''## Description\<newline>''
              @ ''Add ability to create and restore snapshots of canvas state.\<newline>''
              @ ''\<newline>''
              @ ''## Endpoints\<newline>''
              @ ''- POST /api/canvases/:id/checkpoints - Manual checkpoint\<newline>''
              @ ''- GET /api/canvases/:id/checkpoints - List checkpoints\<newline>''
              @ ''- POST /api/checkpoints/:id/restore - Restore from checkpoint\<newline>''
              @ ''\<newline>''
              @ ''## Tasks\<newline>''
              @ ''- Implement auto-checkpoint every 5 min\<newline>''
              @ ''- Create manual checkpoint endpoint\<newline>''
              @ ''- Store Yjs state in R2\<newline>''
              @ ''- Build checkpoint list/restore UI\<newline>''
              @ ''- Add checkpoint labels and descriptions\<newline>''
              @ ''- Implement garbage collection (keep last 50)\<newline>''
              @ ''\<newline>''
              @ ''## Acceptance Criteria\<newline>''
              @ ''- Auto-checkpoints created reliably\<newline>''
              @ ''- Manual checkpoints can be created\<newline>''
              @ ''- Restore works without data loss\<newline>''
              @ ''- Old checkpoints cleaned up\<newline>''
              @ ''\<newline>''
              @ ''## Labels\<newline>''
              @ ''api, data-integrity'')\<rparr>,
           \<lparr>issue_title = ''Real-Time Performance Optimization'',
            issue_body =
              (''## Description\<newline>''
              @ ''Optimize performance for multi-user editing scenarios.\<newline>''
              @ ''\<newline>''
              @ ''## Tasks\<newline>''
              @ ''- Batch Yjs updates during drag (debounce)\<newline>''
              @ ''- Throttle remote presence updates (10fps max)\<newline>''
              @ ''- Optimize re-renders on spec change\<newline>''
              @ ''- Profile and fix bottlenecks with React DevTools\<newline>''
              @ ''- Load test with 5+ concurrent users\<newline>''
              @ ''- Target: 60fps drag with 5 collaborators\<newline>''
              @ ''\<newline>''
              @ ''## Acceptance Criteria\<newline>''
              @ ''- Drag maintains 60fps with 5 users\<newline>''
              @ ''- Presence updates throttled appropriately\<newline>''
              @ ''- No unnecessary re-renders\<newline>''
              @ ''- CPU usage acceptable\<newline>''
              @ ''\<newline>''
              @ ''## Labels\<newline>''
              @ ''performance, realtime'')\<rparr>]\<rparr>),
      (''Phase 4: Agent Branches + Proposals'',
       \<lparr>phase_description = ''AI agents can create branches, make changes, and submit proposals for human review.'',
        phase_duration = ''4-5 weeks'',
        phase_issues =
          [\<lparr>issue_title = ''Implement Agent Branch System'',
            issue_body =
              (''## Description\<newline>''
              @ ''Enable agents to fork canvases into isolated branches for experimentation.\<newline>''
              @ ''\<newline>''
              @ ''## Endpoints\<newline>''
              @ ''- POST /api/canvases/:id/branches - Create branch\<newline>''
              @ ''- GET /api/canvases/:id/branches - List branches\<newline>''
              @ ''- GET /api/branches/:id - Get branch details\<newline>''
              @ ''- DELETE /api/branches/:id - Delete branch\<newline>''
              @ ''\<newline>''
              @ ''## Tasks\<newline>''
              @ ''- Implement branch CRUD endpoints\<newline>''
              @ ''- Store base version + Yjs state for each branch\<newline>''
              @ ''- Allow agents to edit branch independently\<newline>''
              @ ''- Implement garbage collection (7 day expiry)\<newline>''
              @ ''- Add branch status tracking\<newline>''
              @ ''\<newline>''
              @ ''## Acceptance Criteria\<newline>''
              @ ''- Agents can fork canvases to branches\<newline>''
              @ ''- Branch edits don't affect main canvas\<newline>''
              @ ''- Branches can be listed and deleted\<newline>''
              @ ''\<newline>''
              @ ''## Labels\<newline>''
              @ ''api, agents'')\<rparr>,
           \<lparr>issue_title = ''Build Proposal Submission Flow'',
            issue_body =
              (''## Description\<newline>''
              @ ''Allow agents to submit proposals for merging changes back to main canvas.\<newline>''
              @ ''\<newline>''
              @ ''## Endpoints\<newline>''
              @ ''- POST /api/branches/:id/proposals - Submit proposal\<newline>''
              @ ''- GET /api/canvases/:id/proposals - List proposals\<newline>''
              @ ''- GET /api/proposals/:id - Get proposal details\<newline>''
              @ ''\<newline>''
              @ ''## Tasks\<newline>''
              @ ''- Capture operations, rationale, assumptions, confidence\<newline>''
              @ ''- Generate preview image (render canvas to image)\<newline>''
              @ ''- Store in D1 with pending status\<newline>''
              @ ''- Notify canvas owner via webhook/email\<newline>''
              @ ''- Track proposal history\<newline>''
              @ ''\<newline>''
              @ ''## Acceptance Criteria\<newline>''
              @ ''- Agents can submit proposals\<newline>''
              @ ''- Proposals include clear rationale\<newline>''
              @ ''- Canvas owners are notified\<newline>''
              @ ''- Proposal history maintained\<newline>''
              @ ''\<newline>''
              @ ''## Labels\<newline>''
              @ ''api, agents'')\<rparr>,
           \<lparr>issue_title = ''Create Proposal Review UI'',
            issue_body =
              (''## Description\<newline>''
              @ ''Build interface for reviewing and managing agent proposals.\<newline>''
              @ ''\<newline>''
              @ ''## Tasks\<newline>''
              @ ''- Build ProposalListPanel component\<newline>''
              @ ''- Implement ProposalDiffView with visual diff\<newline>''
              @ ''- Show rationale and assumptions\<newline>''
              @ ''- Add approve/reject buttons\<newline>''
              @ ''- Implement merge operation on approve\<newline>''
              @ ''- Show approval history\<newline>''
              @ ''\<newline>''
              @ ''## Acceptance Criteria\<newline>''
              @ ''- Proposals listed with status\<newline>''
              @ ''- Diff clearly shows changes\<newline>''
              @ ''- Approve/reject workflows working\<newline>''
              @ ''- Changes merged correctly\<newline>''
              @ ''\<newline>''
              @ ''## Labels\<newline>''
              @ ''frontend, agents'')\<rparr>,
           \<lparr>issue_title = ''Add Design Rationale Layer'',
            issue_body =
              (''## Description\<newline>''
              @ ''Store and display AI reasoning for proposed changes.\<newline>''
              @ ''\<newline>''
              @ ''## Tasks\<newline>''
              @ ''- Store rationale in Yjs meta map (keyed by node ID)\<newline>''
              @ ''- Create RationaleTooltip component\<newline>''
              @ ''- Show "AI suggested" badge on nodes from proposals\<newline>''
              @ ''- View full rationale on hover/click\<newline>''
              @ ''- Display assumptions and confidence score\<newline>''
              @ ''\<newline>''
              @ ''## Acceptance Criteria\<newline>''
              @ ''- Rationale visible in canvas\<newline>''
              @ ''- Tooltips show full AI reasoning\<newline>''
              @ ''- Confidence scores displayed\<newline>''
              @ ''- Works across proposal merges\<newline>''
              @ ''\<newline>''
              @ ''## Labels\<newline>''
              @ ''frontend, agents'')\<rparr>,
           \<lparr>issue_title = ''Agent Token Management'',
            issue_body =
              (''## Description\<newline>''
              @ ''Implement secure token generation for agent authentication.\<newline>''
              @ ''\<newline>''
              @ ''## Endpoints\<newline>''
              @ ''- POST /api/canvases/:id/agent-token - Generate token\<newline>''
              @ ''- GET /api/agents/tokens - List agent tokens\<newline>''
              @ ''- DELETE /api/agents/tokens/:id - Revoke token\<newline>''
              @ ''\<newline>''
              @ ''## Tasks\<newline>''
              @ ''- Generate JWT tokens with scope/expiry\<newline>''
              @ ''- Build AgentTokenDialog UI component\<newline>''
              @ ''- Token includes: scope, expiry, canvasId\<newline>''
              @ ''- Implement token validation in Worker\<newline>''
              @ ''- Rate limit tokens separately from users\<newline>''
              @ ''- Token revocation working\<newline>''
              @ ''\<newline>''
              @ ''## Acceptance Criteria\<newline>''
              @ ''- Tokens generated securely\<newline>''
              @ ''- Tokens include appropriate scopes\<newline>''
              @ ''- Revocation works immediately\<newline>''
              @ ''- Rate limits prevent abuse\<newline>''
              @ ''\<newline>''
              @ ''## Labels\<newline>''
              @ ''auth, agents'')\<rparr>]\<rparr>),
      (''Phase 5: Export Pipeline'',
       \<lparr>phase_description = ''Export designs to usable formats for building real applications.'',
        phase_duration = ''2-3 weeks'',
        phase_issues =
          [\<lparr>issue_title = ''Implement JSON Canonical Export'',
            issue_body =
              (''## Description\<newline>''
              @ ''Create stable JSON export format for LayoutSpec designs.\<newline>''
              @ ''\<newline>''
              @ ''## Endpoints\<newline>''
              @ ''- POST /api/canvases/:id/export/json\<newline>''
              @ ''\<newline>''
              @ ''## Tasks\<newline>''
              @ ''- Define stable export JSON schema with version\<newline>''
              @ ''- Include metadata (exportedAt, author, title)\<newline>''
              @ ''- Validate lossless round-trip conversion\<newline>''
              @ ''- Add export tests\<newline>''
              @ ''- Document schema\<newline>''
              @ ''\<newline>''
              @ ''## Acceptance Criteria\<newline>''
              @ ''- JSON export is lossless\<newline>''
              @ ''- Round-trip conversion works\<newline>''
              @ ''- Schema versioned for future changes\<newline>''
              @ ''\<newline>''
              @ ''## Labels\<newline>''
              @ ''export, api'')\<rparr>,
           \<lparr>issue_title = ''Build React + Tailwind Exporter'',
            issue_body =
              (''## Description\<newline>''
              @ ''Generate runnable React components with Tailwind CSS from designs.\<newline>''
              @ ''\<newline>''
              @ ''## Endpoints\<newline>''
              @ ''- POST /api/canvases/:id/export/react\<newline>''
              @ ''\<newline>''
              @ ''## Tasks\<newline>''
              @ ''- Map LayoutSpec nodes to React components\<newline>''
              @ ''- Generate Tailwind classes for styles\<newline>''
              @ ''- Handle nested structures\<newline>''
              @ ''- Output: zip with components + index + package.json\<newline>''
              @ ''- Add component composition helpers\<newline>''
              @ ''\<newline>''
              @ ''## Acceptance Criteria\<newline>''
              @ ''- Exported components are runnable\<newline>''
              @ ''- Tailwind classes applied correctly\<newline>''
              @ ''- Nested structures handled properly\<newline>''
              @ ''- Output is production-ready\<newline>''
              @ ''\<newline>''
              @ ''## Labels\<newline>''
              @ ''export, api'')\<rparr>,
           \<lparr>issue_title = ''Create Design Tokens Extractor'',
            issue_body =
              (''## Description\<newline>''
              @ ''Extract design system tokens from designs.\<newline>''
              @ ''\<newline>''
              @ ''## Endpoints\<newline>''
              @ ''- POST /api/canvases/:id/export/tokens\<newline>''
              @ ''\<newline>''
              @ ''## Tasks\<newline>''
              @ ''- Extract: colors, spacing, typography, radii\<newline>''
              @ ''- Dedupe and intelligently name tokens\<newline>''
              @ ''- Generate style-dictionary compatible format\<newline>''
              @ ''- Add documentation for token usage\<newline>''
              @ ''- Support multiple output formats\<newline>''
              @ ''\<newline>''
              @ ''## Acceptance Criteria\<newline>''
              @ ''- Tokens extracted automatically\<newline>''
              @ ''- Naming is semantic and consistent\<newline>''
              @ ''- Output compatible with style-dictionary\<newline>''
              @ ''- Documentation clear\<newline>''
              @ ''\<newline>''
              @ ''## Labels\<newline>''
              @ ''export, api'')\<rparr>,
           \<lparr>issue_title = ''Build Export Dialog UI'',
            issue_body =
              (''## Description\<newline>''
              @ ''Create user interface for exporting designs.\<newline>''
              @ ''\<newline>''
              @ ''## Tasks\<newline>''
              @ ''- Build ExportDialog component\<newline>''
              @ ''- Format selection (JSON/React/Tokens)\<newline>''
              @ ''- Options per format (component wrapping, naming, etc)\<newline>''
              @ ''- Download button with progress\<newline>''
              @ ''- Preview panel (optional)\<newline>''
              @ ''- Export history\<newline>''
              @ ''\<newline>''
              @ ''## Acceptance Criteria\<newline>''
              @ ''- Dialog UX is intuitive\<newline>''
              @ ''- All formats exportable\<newline>''
              @ ''- Download works reliably\<newline>''
              @ ''- Progress visible to user\<newline>''
              @ ''\<newline>''
              @ ''## Labels\<newline>''
              @ ''frontend, export'')\<rparr>]\<rparr>)]\<close>

section \<open>create_milestones_and_issues.py\<close>

text \<open>
  The functions of this script read two names that are neither parameters nor locals nor
  built in: \<^verbatim>\<open>REPO\<close> and \<^verbatim>\<open>issue_number\<close>. Python resolves such a name in the global
  namespace of the module when the statement runs and raises \<^verbatim>\<open>NameError\<close> when the name is
  not bound. The namespace is a parameter of the model, a map from names to the strings
  they are bound to. \<open>module_namespace\<close> holds the string constants the module binds,
  \<^verbatim>\<open>REPO_OWNER\<close> and \<^verbatim>\<open>REPO_NAME\<close>; its other bindings are the imports, \<^verbatim>\<open>PHASES\<close> and
  the five functions, none of them under the two names read.
\<close>

type_synonym namespace = "string \<rightharpoonup> string"

definition module_namespace :: namespace where
  "module_namespace = [''REPO_OWNER'' \<mapsto> ''goblinsan'', ''REPO_NAME'' \<mapsto> ''visual-flow'']"

definition load_name :: "namespace \<Rightarrow> string \<Rightarrow> exn + string" where
  "load_name ns name = (case ns name of None \<Rightarrow> Inl (NameError name) | Some v \<Rightarrow> Inr v)"

text \<open>\<^verbatim>\<open>' '.join(cmd)\<close>.\<close>

fun join_blank :: "string list \<Rightarrow> string" where
  "join_blank [] = []"
| "join_blank [x] = x"
| "join_blank (x # y # ys) = x @ '' '' @ join_blank (y # ys)"

text \<open>
  \<^verbatim>\<open>s.replace(old, new)\<close>: every occurrence of \<open>old\<close>, from the left and without overlap;
  with an empty \<open>old\<close>, \<open>new\<close> is put before every character and at the end.
\<close>

function str_replace :: "string \<Rightarrow> string \<Rightarrow> string \<Rightarrow> string" where
  "str_replace old new s =
     (if old = [] then new @ concat (map (\<lambda>c. c # new) s)
      else if s = [] then []
      else if take (length old) s = old then new @ str_replace old new (drop (length old) s)
      else hd s # str_replace old new (tl s))"
  by pat_completeness auto
termination
  by (relation "measure (\<lambda>(old, new, s). length s)") auto

declare str_replace.simps [simp del]

text \<open>
  \<open>run_gh_command\<close>: \<^verbatim>\<open>None\<close> after a non-zero exit, the stripped output otherwise. The
  handler of its \<^verbatim>\<open>try\<close> is for a process that cannot be started, which the model does
  not have.
\<close>

definition run_gh_command :: "'w env \<Rightarrow> string list \<Rightarrow> 'w state \<Rightarrow> otext option \<times> 'w state" where
  "run_gh_command e cmd s =
     (case run e \<lparr>argv = ''gh'' # cmd, stdin = None\<rparr> s of
        (result, s1) \<Rightarrow>
          if returncode result \<noteq> 0 then
            (None,
             print [Lit ''stderr: '', Lit (stderr result)]
               (print [Lit ''Error running command: '', Lit (join_blank cmd)] s1))
          else (Some (strip_text (stdout result)), s1))"

text \<open>
  \<open>create_milestone\<close>. The argument list of the command is built before
  \<open>run_gh_command\<close> is called, and building it reads \<^verbatim>\<open>REPO\<close>.
\<close>

definition create_milestone ::
  "namespace \<Rightarrow> 'w env \<Rightarrow> string \<Rightarrow> string \<Rightarrow> string \<Rightarrow> 'w state \<Rightarrow> (exn + json) \<times> 'w state" where
  "create_milestone ns e title description duration s =
     (let s1 = print [Lit ''Creating milestone: '', Lit title] s in
      case load_name ns ''REPO'' of
        Inl x \<Rightarrow> (Inl x, s1)
      | Inr repo \<Rightarrow>
          (case run_gh_command e
                  [''milestone'', ''create'', ''--repo'', repo, ''--title'', title,
                   ''--description'',
                   description @ ''\<newline>\<newline>Estimated Duration: '' @ duration] s1 of
             (output, s2) \<Rightarrow>
               (case output of
                  None \<Rightarrow> (Inr JNull, s2)
                | Some out \<Rightarrow>
                    if nonempty out then
                      (case json_loads out of
                         Inl x \<Rightarrow>
                           (Inr JNull,
                            print [Lit '' Could not parse milestone response: '', Txt out] s2)
                       | Inr result \<Rightarrow>
                           (case py_get result ''number'' JNull of
                              Inl x \<Rightarrow>
                                (Inr JNull,
                                 print [Lit '' Could not parse milestone response: '', Txt out] s2)
                            | Inr milestone_num \<Rightarrow>
                                (Inr milestone_num,
                                 print [Lit ''Created milestone #'', Val milestone_num,
                                        Lit '': '', Lit title] s2)))
                    else (Inr JNull, s2))))"

text \<open>
  \<open>create_epic\<close>. The body is an f-string that interpolates \<^verbatim>\<open>milestone_num\<close> once and
  \<^verbatim>\<open>issue_number\<close> twice; it is built before the argument list, which reads \<^verbatim>\<open>REPO\<close>.
\<close>

definition create_epic ::
  "namespace \<Rightarrow> 'w env \<Rightarrow> json \<Rightarrow> string \<Rightarrow> 'w state \<Rightarrow> (exn + json) \<times> 'w state" where
  \<open>create_epic ns e milestone_num title s =
     (let s1 = print [Lit ''  Creating epic: '', Lit title] s in
      case load_name ns ''issue_number'' of
        Inl x \<Rightarrow> (Inl x, s1)
      | Inr issue_number \<Rightarrow>
          (let body =
                 ''## Epic Overview\<newline>''
               @ ''\<newline>''
               @ ''This Epic is part of Milestone: '' @ py_str (repr e) milestone_num @ ''\<newline>''
               @ ''\<newline>''
               @ ''## Goals\<newline>''
               @ ''\<newline>''
               @ ''- [ ] Implement all related issues\<newline>''
               @ ''- [ ] All related Issues are resolved\<newline>''
               @ ''- [ ] Tests pass\<newline>''
               @ ''- [ ] Documentation updated\<newline>''
               @ ''\<newline>''
               @ ''## Acceptance Criteria\<newline>''
               @ ''\<newline>''
               @ ''- [ ] All planned tasks completed\<newline>''
               @ ''- [ ] Tests pass\<newline>''
               @ ''- [ ] Documentation updated\<newline>''
               @ ''\<newline>''
               @ ''---\<newline>''
               @ ''\<newline>''
               @ ''**To link issues to this Epic:**\<newline>''
               @ ''Add a comment on the Issue with: `Part of #'' @ issue_number @ ''`\<newline>''
               @ ''Or reference in issue body: `Relates to #'' @ issue_number @ ''`\<newline>''
           in case load_name ns ''REPO'' of
                Inl x \<Rightarrow> (Inl x, s1)
              | Inr repo \<Rightarrow>
                  (case run_gh_command e
                          [''issue'', ''create'', ''--repo'', repo,
                           ''--title'', ''['' @ py_str (repr e) milestone_num @ ''] Epic: '' @ title,
                           ''--body'', body,
                           ''--label'', ''Epic'',
                           ''--milestone'', py_str (repr e) milestone_num] s1 of
                     (output, s2) \<Rightarrow>
                       (case output of
                          None \<Rightarrow> (Inr JNull, s2)
                        | Some out \<Rightarrow>
                            if nonempty out then
                              (case json_loads out of
                                 Inl x \<Rightarrow>
                                   (Inr JNull,
                                    print [Lit '' Could not parse epic response: '', Txt out] s2)
                               | Inr result \<Rightarrow>
                                   (case py_get result ''number'' JNull of
                                      Inl x \<Rightarrow>
                                        (Inr JNull,
                                         print [Lit '' Could not parse epic response: '', Txt out] s2)
                                    | Inr epic_num \<Rightarrow>
                                        (Inr epic_num,
                                         print [Lit ''Created epic #'', Val epic_num,
                                                Lit '': '', Lit title] s2)))
                            else (Inr JNull, s2)))))\<close>

text \<open>
  \<open>create_issue\<close>. The reference to the epic is appended to the body before the argument
  list, which reads \<^verbatim>\<open>REPO\<close>, is built.
\<close>

definition create_issue ::
  "namespace \<Rightarrow> 'w env \<Rightarrow> json \<Rightarrow> json \<Rightarrow> string \<Rightarrow> string \<Rightarrow> 'w state
     \<Rightarrow> (exn + json) \<times> 'w state" where
  "create_issue ns e milestone_num epic_num title body s =
     (let full_body = body @ ''\<newline>\<newline>---\<newline>\<newline>Part of Epic #''
                        @ py_str (repr e) epic_num
      in case load_name ns ''REPO'' of
           Inl x \<Rightarrow> (Inl x, s)
         | Inr repo \<Rightarrow>
             (case run_gh_command e
                     [''issue'', ''create'', ''--repo'', repo,
                      ''--title'', title,
                      ''--body'', full_body,
                      ''--milestone'', py_str (repr e) milestone_num] s of
                (output, s2) \<Rightarrow>
                  (case output of
                     None \<Rightarrow> (Inr JNull, s2)
                   | Some out \<Rightarrow>
                       if nonempty out then
                         (case json_loads out of
                            Inl x \<Rightarrow>
                              (Inr JNull,
                               print [Lit '' Could not parse issue response: '', Txt out] s2)
                          | Inr result \<Rightarrow>
                              (case py_get result ''number'' JNull of
                                 Inl x \<Rightarrow>
                                   (Inr JNull,
                                    print [Lit '' Could not parse issue response: '', Txt out] s2)
                               | Inr issue_num \<Rightarrow>
                                   (Inr issue_num,
                                    print [Lit ''Created issue #'', Val issue_num,
                                           Lit '': '', Lit title] s2)))
                       else (Inr JNull, s2))))"

text \<open>The loop of \<open>main\<close> over the issues of one phase.\<close>

fun main_issues ::
  "namespace \<Rightarrow> 'w env \<Rightarrow> json \<Rightarrow> json \<Rightarrow> issue list \<Rightarrow> 'w state \<Rightarrow> (exn + unit) \<times> 'w state" where
  "main_issues ns e milestone_num epic_num [] s = (Inr (), s)"
| "main_issues ns e milestone_num epic_num (i # rest) s =
     (case create_issue ns e milestone_num epic_num (issue_title i) (issue_body i) s of
        (Inl x, s1) \<Rightarrow> (Inl x, s1)
      | (Inr issue_num, s1) \<Rightarrow>
          main_issues ns e milestone_num epic_num rest
            (if \<not> truthy issue_num
             then print [Lit '' Failed to create issue: '', Lit (issue_title i)] s1
             else s1))"

text \<open>
  The loop of \<open>main\<close> over the phases. A milestone or an epic that comes back without a
  number skips the rest of the phase (\<^verbatim>\<open>continue\<close>); an exception is caught nowhere.
\<close>

fun main_phases ::
  "namespace \<Rightarrow> 'w env \<Rightarrow> (string \<times> phase_data) list \<Rightarrow> 'w state \<Rightarrow> (exn + unit) \<times> 'w state" where
  "main_phases ns e [] s = (Inr (), s)"
| "main_phases ns e ((phase_name, data) # rest) s =
     (case create_milestone ns e phase_name (phase_description data) (phase_duration data)
             (print [Lit (replicate 60 (CHR ''-''))]
                (print [Lit ''\<newline>'', Lit phase_name] s)) of
        (Inl x, s1) \<Rightarrow> (Inl x, s1)
      | (Inr milestone_num, s1) \<Rightarrow>
          if \<not> truthy milestone_num then
            main_phases ns e rest
              (print [Lit ''Failed to create milestone for '', Lit phase_name] s1)
          else
            (case create_epic ns e milestone_num
                    (str_replace ''Phase '' [] (str_replace ''Phase X: '' [] phase_name)) s1 of
               (Inl x, s2) \<Rightarrow> (Inl x, s2)
             | (Inr epic_num, s2) \<Rightarrow>
                 if \<not> truthy epic_num then
                   main_phases ns e rest
                     (print [Lit ''Failed to create epic for '', Lit phase_name] s2)
                 else
                   (case main_issues ns e milestone_num epic_num (phase_issues data) s2 of
                      (Inl x, s3) \<Rightarrow> (Inl x, s3)
                    | (Inr u, s3) \<Rightarrow> main_phases ns e rest s3)))"

text \<open>\<open>main\<close> over a catalog: the banner, the loop, the closing lines.\<close>

definition main ::
  "namespace \<Rightarrow> 'w env \<Rightarrow> (string \<times> phase_data) list \<Rightarrow> 'w state \<Rightarrow> (exn + unit) \<times> 'w state" where
  "main ns e phases s =
     (case main_phases ns e phases
             (print [Lit (replicate 60 (CHR ''=''))]
                (print [Lit ''Creating GitHub Milestones, Epics, and Issues''] s)) of
        (Inl x, s1) \<Rightarrow> (Inl x, s1)
      | (Inr u, s1) \<Rightarrow>
          (Inr (),
           print [Lit ''Visit the Issues tab to see your roadmap!'']
             (print [Lit ''Done! All milestones, epics, and issues created.'']
                (print [Lit (''\<newline>'' @ replicate 60 (CHR ''=''))] s1))))"

text \<open>The script as it is run: \<open>main\<close> in the namespace of the module, over \<open>PHASES\<close>.\<close>

definition create_milestones_and_issues :: "'w env \<Rightarrow> 'w state \<Rightarrow> (exn + unit) \<times> 'w state" where
  "create_milestones_and_issues e s = main module_namespace e PHASES s"

text \<open>\<^verbatim>\<open>needle in s\<close> for strings.\<close>

fun contains :: "string \<Rightarrow> string \<Rightarrow> bool" where
  "contains needle [] = (needle = [])"
| "contains needle (c # cs) = (take (length needle) (c # cs) = needle \<or> contains needle cs)"

section \<open>Concrete worlds for the examples\<close>

text \<open>A world in which every invocation exits with 0 and prints the same text.\<close>

definition always :: "otext \<Rightarrow> unit env" where
  "always t = \<lparr>gh = (\<lambda>i w. (\<lparr>returncode = 0, stdout = t, stderr = ''''\<rparr>, w)),
              repr = (\<lambda>j. '''')\<rparr>"

text \<open>A world in which every invocation fails with exit code 1.\<close>

definition failing :: "unit env" where
  "failing = \<lparr>gh = (\<lambda>i w. (\<lparr>returncode = 1, stdout = Raw '''', stderr = ''not found''\<rparr>, w)),
             repr = (\<lambda>j. '''')\<rparr>"

definition start :: "unit state" where
  "start = \<lparr>world = (), calls = [], printed = []\<rparr>"

text \<open>
  A world in which only the creation call that posts to \<open>path\<close> exits with 0, printing
  \<open>j\<close>; every other call, the label calls among them, fails with exit code 1.
\<close>

definition post_only :: "string \<Rightarrow> json \<Rightarrow> unit env" where
  "post_only path j =
     \<lparr>gh = (\<lambda>i w. (if take 5 (argv i) = [''gh'', ''api'', ''-X'', ''POST'', path]
                     then ok (Json j) else failed ''not found'', w)),
      repr = (\<lambda>j. [])\<rparr>"

text \<open>
  The example scenario of the specification: one phase with the issues A and B, in a world
  in which every call exits with 0 and the \<open>n\<close>-th call (from 0) prints the number
  \<open>first + n\<close>; with \<open>first = 10\<close> the milestone gets 10, the epic 11 and the issues 12
  and 13.
\<close>

definition scenario_PHASES :: "(string \<times> phase_data) list" where
  "scenario_PHASES =
     [(''Phase 0: Stabilize'',
       \<lparr>phase_description = ''Stabilize X'',
        phase_duration = ''1 week'',
        phase_issues = [\<lparr>issue_title = ''A'', issue_body = ''Task A''\<rparr>,
                        \<lparr>issue_title = ''B'', issue_body = ''Task B''\<rparr>]\<rparr>)]"

definition counting :: "int \<Rightarrow> nat env" where
  "counting first =
     \<lparr>gh = (\<lambda>i n. (\<lparr>returncode = 0,
                      stdout = Json (JObj [(''number'', JNum (first + int n))]),
                      stderr = ''''\<rparr>, Suc n)),
      repr = (\<lambda>j. '''')\<rparr>"

definition counting_start :: "nat state" where
  "counting_start = \<lparr>world = 0, calls = [], printed = []\<rparr>"

text \<open>A namespace in which the two names that the module leaves unbound are bound.\<close>

definition resolved_namespace :: namespace where
  "resolved_namespace =
     module_namespace(''REPO'' \<mapsto> ''goblinsan/visual-flow'', ''issue_number'' \<mapsto> ''11'')"

text \<open>A tracker that holds the epic 45 and the issue 12 and no parent yet.\<close>

definition small_tracker :: "tracker state" where
  "small_tracker =
     \<lparr>world = \<lparr>issues = [(45, ''I_epic45''), (12, ''I_issue12'')], parent = Map.empty\<rparr>,
      calls = [], printed = []\<rparr>"

text \<open>A tracker that holds the issue 12 with the body \<^verbatim>\<open>## Tasks\<close>.\<close>

definition small_bodies :: "bodies state" where
  "small_bodies = \<lparr>world = [''12'' \<mapsto> ''## Tasks''], calls = [], printed = []\<rparr>"

section \<open>Basic facts\<close>

lemma world_print [simp]: "world (print l s) = world s"
  by (simp add: print_def)

lemma calls_print [simp]: "calls (print l s) = calls s"
  by (simp add: print_def)

lemma calls_run: "calls (snd (run e i s)) = calls s @ [i]"
  by (simp add: run_def split: prod.splits)

lemma str_int_12: "str_int 12 = ''12''"
  by (simp add: str_int_def str_nat.simps digit_def)

lemma str_int_45: "str_int 45 = ''45''"
  by (simp add: str_int_def str_nat.simps digit_def)

section \<open>Facts about the body-rewrite pass\<close>

text \<open>
  In every world: when the view call for a child issue exits with 0 and its output parses
  to an object whose \<^verbatim>\<open>body\<close> is the string \<open>B\<close>, the pass next issues the edit call for
  that issue with the header followed by \<open>B\<close> on standard input.
\<close>

lemma edit_call_carries_header_and_fetched_body:
  assumes "gh e \<lparr>argv = [''gh'', ''issue'', ''view'', str_int issue_num, ''--json'', ''body''],
                  stdin = None\<rparr> (world s) = (r, w)"
    and "returncode r = 0"
    and "stdout r = Json (JObj kvs)"
    and "map_of kvs ''body'' = Some (JStr B)"
  shows "\<exists>s2. link_children e epic_num (issue_num # rest) s = link_children e epic_num rest s2
             \<and> calls s2 = calls s @
                 [\<lparr>argv = [''gh'', ''issue'', ''view'', str_int issue_num, ''--json'', ''body''],
                   stdin = None\<rparr>,
                  \<lparr>argv = [''gh'', ''issue'', ''edit'', str_int issue_num, ''-b'', ''-''],
                   stdin = Some (''**Parent Epic:** #'' @ str_int epic_num @ ''\<newline>\<newline>'' @ B)\<rparr>]"
  using assms
  by (auto simp: get_issue_body_def update_issue_body_def run_def print_def Let_def
           split: prod.splits)

text \<open>The pass over the tracker of the specification.\<close>

lemma get_issue_body_bodies:
  "get_issue_body (body_env rp) n s
     = (Inr (JStr (case world s (str_int n) of Some b \<Rightarrow> b | None \<Rightarrow> [])),
        s\<lparr>calls := calls s @ [\<lparr>argv = [''gh'', ''issue'', ''view'', str_int n, ''--json'', ''body''],
                                 stdin = None\<rparr>]\<rparr>)"
  by (simp add: get_issue_body_def run_def body_env_def body_gh_def ok_def failed_def
           split: option.splits)

lemma update_issue_body_bodies:
  "world (update_issue_body (body_env rp) n epic (JStr B) s)
     = (case world s (str_int n) of
          Some b \<Rightarrow> (world s)(str_int n \<mapsto> ''**Parent Epic:** #'' @ str_int epic @ ''\<newline>\<newline>'' @ B)
        | None \<Rightarrow> world s)"
  "calls (update_issue_body (body_env rp) n epic (JStr B) s)
     = calls s @ [\<lparr>argv = [''gh'', ''issue'', ''edit'', str_int n, ''-b'', ''-''],
                   stdin = Some (''**Parent Epic:** #'' @ str_int epic @ ''\<newline>\<newline>'' @ B)\<rparr>]"
  by (simp_all add: update_issue_body_def run_def body_env_def body_gh_def ok_def failed_def
           print_def Let_def split: option.splits)

lemma link_children_step_bodies:
  "\<exists>s2. link_children (body_env rp) epic (n # rest) s = link_children (body_env rp) epic rest s2
        \<and> (\<forall>k. world s2 k = (if k = str_int n
                              then map_option (\<lambda>b. ''**Parent Epic:** #'' @ str_int epic @ ''\<newline>\<newline>'' @ b)
                                     (world s k)
                              else world s k))"
proof -
  let ?s1 = "update_issue_body (body_env rp) n epic
               (JStr (case world s (str_int n) of Some b \<Rightarrow> b | None \<Rightarrow> []))
               (s\<lparr>calls := calls s @ [\<lparr>argv = [''gh'', ''issue'', ''view'', str_int n, ''--json'', ''body''],
                                        stdin = None\<rparr>]\<rparr>)"
  have "link_children (body_env rp) epic (n # rest) s = link_children (body_env rp) epic rest ?s1"
    by (simp add: get_issue_body_bodies)
  moreover have "\<forall>k. world ?s1 k = (if k = str_int n
                              then map_option (\<lambda>b. ''**Parent Epic:** #'' @ str_int epic @ ''\<newline>\<newline>'' @ b)
                                     (world s k)
                              else world s k)"
    by (simp add: update_issue_body_bodies split: option.splits)
  ultimately show ?thesis by blast
qed

lemma link_children_bodies:
  "distinct (map str_int cs) \<Longrightarrow>
   \<exists>s2. link_children (body_env rp) epic cs s = (Inr (), s2)
        \<and> (\<forall>k. world s2 k = (if k \<in> str_int ` set cs
                              then map_option (\<lambda>b. ''**Parent Epic:** #'' @ str_int epic @ ''\<newline>\<newline>'' @ b)
                                     (world s k)
                              else world s k))"
proof (induction cs arbitrary: s)
  case Nil
  show ?case by simp
next
  case (Cons n rest)
  obtain s1 where s1: "link_children (body_env rp) epic (n # rest) s
                         = link_children (body_env rp) epic rest s1"
    and w1: "\<forall>k. world s1 k = (if k = str_int n
                              then map_option (\<lambda>b. ''**Parent Epic:** #'' @ str_int epic @ ''\<newline>\<newline>'' @ b)
                                     (world s k)
                              else world s k)"
    using link_children_step_bodies[of rp epic n rest s] by blast
  from Cons.prems have d: "distinct (map str_int rest)" and nin: "str_int n \<notin> str_int ` set rest"
    by auto
  obtain s2 where s2: "link_children (body_env rp) epic rest s1 = (Inr (), s2)"
    and w2: "\<forall>k. world s2 k = (if k \<in> str_int ` set rest
                              then map_option (\<lambda>b. ''**Parent Epic:** #'' @ str_int epic @ ''\<newline>\<newline>'' @ b)
                                     (world s1 k)
                              else world s1 k)"
    using Cons.IH[OF d, of s1] by blast
  show ?case
    using s1 s2 w1 w2 nin by auto
qed


lemma link_epics_bodies:
  "distinct (map str_int (concat (map snd pm))) \<Longrightarrow>
   \<exists>s'. link_epics (body_env rp) pm s = (Inr (), s')
        \<and> (\<forall>k. k \<notin> str_int ` set (concat (map snd pm)) \<longrightarrow> world s' k = world s k)
        \<and> (\<forall>(epic, cs)\<in>set pm. \<forall>c\<in>set cs.
              world s' (str_int c)
                = map_option (\<lambda>b. ''**Parent Epic:** #'' @ str_int epic @ ''\<newline>\<newline>'' @ b)
                    (world s (str_int c)))"
proof (induction pm arbitrary: s)
  case Nil
  show ?case by simp
next
  case (Cons ec rest)
  obtain epic cs where ec: "ec = (epic, cs)" by (cases ec)
  let ?s0 = "print [Lit ''Linking child issues to epic #'', Lit (str_int epic), Lit ''...''] s"
  from Cons.prems ec have d1: "distinct (map str_int cs)"
    and d2: "distinct (map str_int (concat (map snd rest)))"
    and d3: "str_int ` set cs \<inter> str_int ` set (concat (map snd rest)) = {}"
    by auto
  obtain s1 where s1: "link_children (body_env rp) epic cs ?s0 = (Inr (), s1)"
    and w1: "\<forall>k. world s1 k = (if k \<in> str_int ` set cs
                              then map_option (\<lambda>b. ''**Parent Epic:** #'' @ str_int epic @ ''\<newline>\<newline>'' @ b)
                                     (world s k)
                              else world s k)"
    using link_children_bodies[OF d1, of rp epic ?s0] by auto
  obtain s' where s': "link_epics (body_env rp) rest s1 = (Inr (), s')"
    and f': "\<forall>k. k \<notin> str_int ` set (concat (map snd rest)) \<longrightarrow> world s' k = world s1 k"
    and w': "\<forall>(ep, cs')\<in>set rest. \<forall>c\<in>set cs'.
              world s' (str_int c)
                = map_option (\<lambda>b. ''**Parent Epic:** #'' @ str_int ep @ ''\<newline>\<newline>'' @ b)
                    (world s1 (str_int c))"
    using Cons.IH[OF d2, of s1] by blast
  have run: "link_epics (body_env rp) (ec # rest) s = (Inr (), s')"
    using s1 s' by (simp add: ec)
  have frame: "\<forall>k. k \<notin> str_int ` set (concat (map snd (ec # rest))) \<longrightarrow> world s' k = world s k"
  proof (intro allI impI)
    fix k assume k: "k \<notin> str_int ` set (concat (map snd (ec # rest)))"
    then have a: "k \<notin> str_int ` set cs"
      and b: "k \<notin> str_int ` set (concat (map snd rest))" by (auto simp: ec)
    from f' b have "world s' k = world s1 k" by blast
    with w1 a show "world s' k = world s k" by simp
  qed
  have here: "\<forall>c\<in>set cs. world s' (str_int c)
                = map_option (\<lambda>b. ''**Parent Epic:** #'' @ str_int epic @ ''\<newline>\<newline>'' @ b)
                    (world s (str_int c))"
  proof
    fix c assume c: "c \<in> set cs"
    with d3 have "str_int c \<notin> str_int ` set (concat (map snd rest))" by blast
    with f' have "world s' (str_int c) = world s1 (str_int c)" by blast
    with w1 c show "world s' (str_int c)
                = map_option (\<lambda>b. ''**Parent Epic:** #'' @ str_int epic @ ''\<newline>\<newline>'' @ b)
                    (world s (str_int c))" by simp
  qed
  have later: "\<forall>(ep, cs')\<in>set rest. \<forall>c\<in>set cs'.
              world s' (str_int c)
                = map_option (\<lambda>b. ''**Parent Epic:** #'' @ str_int ep @ ''\<newline>\<newline>'' @ b)
                    (world s (str_int c))"
  proof (clarify)
    fix ep cs' c assume m: "(ep, cs') \<in> set rest" and c: "c \<in> set cs'"
    then have "str_int c \<in> str_int ` set (concat (map snd rest))" by force
    with d3 have "str_int c \<notin> str_int ` set cs" by blast
    with w1 have "world s1 (str_int c) = world s (str_int c)" by simp
    with w' m c show "world s' (str_int c)
                = map_option (\<lambda>b. ''**Parent Epic:** #'' @ str_int ep @ ''\<newline>\<newline>'' @ b)
                    (world s (str_int c))" by force
  qed
  from run frame here later show ?case by (simp add: ec)
qed

lemma phase_map_children_distinct:
  "distinct (map str_int (concat (map snd phase_map)))"
  by (simp add: phase_map_def str_int_def str_nat.simps digit_def)

lemma link_child_to_parent_bodies:
  "\<exists>s'. link_child_to_parent (body_env rp) s = (Inr (), s')
        \<and> (\<forall>(epic, cs)\<in>set phase_map. \<forall>c\<in>set cs.
              world s' (str_int c)
                = map_option (\<lambda>b. ''**Parent Epic:** #'' @ str_int epic @ ''\<newline>\<newline>'' @ b)
                    (world s (str_int c)))"
proof -
  obtain s1 where s1: "link_epics (body_env rp) phase_map s = (Inr (), s1)"
    and w1: "\<forall>(epic, cs)\<in>set phase_map. \<forall>c\<in>set cs.
              world s1 (str_int c)
                = map_option (\<lambda>b. ''**Parent Epic:** #'' @ str_int epic @ ''\<newline>\<newline>'' @ b)
                    (world s (str_int c))"
    using link_epics_bodies[OF phase_map_children_distinct, of rp s] by blast
  have "link_child_to_parent (body_env rp) s
          = (Inr (), print [Lit ''\<newline>All child issues linked to parent epics!''] s1)"
    using s1 by (simp add: link_child_to_parent_def)
  with w1 show ?thesis by simp
qed


text \<open>
  C8. Over the tracker of the specification, whose edit operation overwrites the full body
  with the text passed to it, the linking pass builds the new body itself from the body it
  fetched. For every child issue whose stored body is \<open>B\<close>, the step of the pass for that
  issue makes the view call and the edit call with the header followed by \<open>B\<close>, and the
  body stored afterwards is exactly \<^verbatim>\<open>**Parent Epic:** #<epic>\n\n\<close> followed by \<open>B\<close>, no
  other body being changed. And the whole script over \<open>phase_map\<close> returns and leaves, for
  every child of every epic of the map whose stored body was \<open>B'\<close>, exactly the header of
  that epic followed by \<open>B'\<close>.
\<close>

theorem fetched_body_gets_header_prepended:
  "(world s (str_int issue_num) = Some B \<longrightarrow>
      (\<exists>s2. link_children (body_env rp) epic_num (issue_num # rest) s
                = link_children (body_env rp) epic_num rest s2
            \<and> world s2 = (world s)(str_int issue_num
                               \<mapsto> ''**Parent Epic:** #'' @ str_int epic_num @ ''\<newline>\<newline>'' @ B)
            \<and> calls s2 = calls s @
                 [\<lparr>argv = [''gh'', ''issue'', ''view'', str_int issue_num, ''--json'', ''body''],
                   stdin = None\<rparr>,
                  \<lparr>argv = [''gh'', ''issue'', ''edit'', str_int issue_num, ''-b'', ''-''],
                   stdin = Some (''**Parent Epic:** #'' @ str_int epic_num @ ''\<newline>\<newline>'' @ B)\<rparr>]))
   \<and> (\<exists>s'. link_child_to_parent (body_env rp) s = (Inr (), s')
          \<and> (\<forall>(epic, cs)\<in>set phase_map. \<forall>c\<in>set cs. \<forall>B'.
                world s (str_int c) = Some B' \<longrightarrow>
                world s' (str_int c)
                  = Some (''**Parent Epic:** #'' @ str_int epic @ ''\<newline>\<newline>'' @ B')))"
proof -
  have step: "world s (str_int issue_num) = Some B \<longrightarrow>
      (\<exists>s2. link_children (body_env rp) epic_num (issue_num # rest) s
                = link_children (body_env rp) epic_num rest s2
            \<and> world s2 = (world s)(str_int issue_num
                               \<mapsto> ''**Parent Epic:** #'' @ str_int epic_num @ ''\<newline>\<newline>'' @ B)
            \<and> calls s2 = calls s @
                 [\<lparr>argv = [''gh'', ''issue'', ''view'', str_int issue_num, ''--json'', ''body''],
                   stdin = None\<rparr>,
                  \<lparr>argv = [''gh'', ''issue'', ''edit'', str_int issue_num, ''-b'', ''-''],
                   stdin = Some (''**Parent Epic:** #'' @ str_int epic_num @ ''\<newline>\<newline>'' @ B)\<rparr>])"
  proof
    assume b: "world s (str_int issue_num) = Some B"
    let ?s1 = "update_issue_body (body_env rp) issue_num epic_num (JStr B)
                 (s\<lparr>calls := calls s @
                      [\<lparr>argv = [''gh'', ''issue'', ''view'', str_int issue_num, ''--json'', ''body''],
                        stdin = None\<rparr>]\<rparr>)"
    have "link_children (body_env rp) epic_num (issue_num # rest) s
            = link_children (body_env rp) epic_num rest ?s1"
      using b by (simp add: get_issue_body_bodies)
    moreover have "world ?s1 = (world s)(str_int issue_num
                               \<mapsto> ''**Parent Epic:** #'' @ str_int epic_num @ ''\<newline>\<newline>'' @ B)"
      using b by (simp add: update_issue_body_bodies)
    moreover have "calls ?s1 = calls s @
                 [\<lparr>argv = [''gh'', ''issue'', ''view'', str_int issue_num, ''--json'', ''body''],
                   stdin = None\<rparr>,
                  \<lparr>argv = [''gh'', ''issue'', ''edit'', str_int issue_num, ''-b'', ''-''],
                   stdin = Some (''**Parent Epic:** #'' @ str_int epic_num @ ''\<newline>\<newline>'' @ B)\<rparr>]"
      by (simp add: update_issue_body_bodies)
    ultimately show "\<exists>s2. link_children (body_env rp) epic_num (issue_num # rest) s
                = link_children (body_env rp) epic_num rest s2
            \<and> world s2 = (world s)(str_int issue_num
                               \<mapsto> ''**Parent Epic:** #'' @ str_int epic_num @ ''\<newline>\<newline>'' @ B)
            \<and> calls s2 = calls s @
                 [\<lparr>argv = [''gh'', ''issue'', ''view'', str_int issue_num, ''--json'', ''body''],
                   stdin = None\<rparr>,
                  \<lparr>argv = [''gh'', ''issue'', ''edit'', str_int issue_num, ''-b'', ''-''],
                   stdin = Some (''**Parent Epic:** #'' @ str_int epic_num @ ''\<newline>\<newline>'' @ B)\<rparr>]"
      by blast
  qed
  obtain s' where run: "link_child_to_parent (body_env rp) s = (Inr (), s')"
    and w: "\<forall>(epic, cs)\<in>set phase_map. \<forall>c\<in>set cs.
              world s' (str_int c)
                = map_option (\<lambda>b. ''**Parent Epic:** #'' @ str_int epic @ ''\<newline>\<newline>'' @ b)
                    (world s (str_int c))"
    using link_child_to_parent_bodies[of rp s] by blast
  from w have "\<forall>(epic, cs)\<in>set phase_map. \<forall>c\<in>set cs. \<forall>B'.
                world s (str_int c) = Some B' \<longrightarrow>
                world s' (str_int c)
                  = Some (''**Parent Epic:** #'' @ str_int epic @ ''\<newline>\<newline>'' @ B')"
    by fastforce
  with run step show ?thesis by blast
qed

theorem fetched_body_gets_header_prepended_witness:
  "(\<exists>s2. link_children (body_env (\<lambda>j. [])) 45 [12] small_bodies = (Inr (), s2)
        \<and> world s2 = [''12'' \<mapsto> ''**Parent Epic:** #45\<newline>\<newline>## Tasks'']
        \<and> calls s2 =
            [\<lparr>argv = [''gh'', ''issue'', ''view'', ''12'', ''--json'', ''body''], stdin = None\<rparr>,
             \<lparr>argv = [''gh'', ''issue'', ''edit'', ''12'', ''-b'', ''-''],
              stdin = Some ''**Parent Epic:** #45\<newline>\<newline>## Tasks''\<rparr>])
   \<and> (\<exists>s'. link_child_to_parent (body_env (\<lambda>j. [])) small_bodies = (Inr (), s')
        \<and> world s' ''12'' = Some ''**Parent Epic:** #45\<newline>\<newline>## Tasks'')"
  using fetched_body_gets_header_prepended
    [of small_bodies 12 "''## Tasks''" "\<lambda>j. []" 45 "[]"]
  by (auto simp: small_bodies_def str_int_12 str_int_45 phase_map_def)

text \<open>
  C10. A failed fetch does not skip the edit: when the view call for a child issue exits
  with a code other than 0, \<open>get_issue_body\<close> returns the empty string and the pass
  still issues the edit call, whose new body is the parent-epic header alone, so that the
  tracker is told to replace the previous body by the header.
\<close>

theorem failed_fetch_overwrites_body_with_header:
  assumes "gh e \<lparr>argv = [''gh'', ''issue'', ''view'', str_int issue_num, ''--json'', ''body''],
                  stdin = None\<rparr> (world s) = (r, w)"
    and "returncode r \<noteq> 0"
  shows "fst (get_issue_body e issue_num s) = Inr (JStr '''')
       \<and> (\<exists>s2. link_children e epic_num (issue_num # rest) s = link_children e epic_num rest s2
             \<and> calls s2 = calls s @
                 [\<lparr>argv = [''gh'', ''issue'', ''view'', str_int issue_num, ''--json'', ''body''],
                   stdin = None\<rparr>,
                  \<lparr>argv = [''gh'', ''issue'', ''edit'', str_int issue_num, ''-b'', ''-''],
                   stdin = Some (''**Parent Epic:** #'' @ str_int epic_num @ ''\<newline>\<newline>'')\<rparr>])"
  using assms
  by (auto simp: get_issue_body_def update_issue_body_def run_def print_def Let_def
           split: prod.splits)

theorem failed_fetch_overwrites_body_with_header_witness:
  "fst (get_issue_body failing 12 start) = Inr (JStr '''')
   \<and> (\<exists>s2. link_children failing 45 [12] start = (Inr (), s2)
        \<and> calls s2 =
            [\<lparr>argv = [''gh'', ''issue'', ''view'', ''12'', ''--json'', ''body''], stdin = None\<rparr>,
             \<lparr>argv = [''gh'', ''issue'', ''edit'', ''12'', ''-b'', ''-''],
              stdin = Some ''**Parent Epic:** #45\<newline>\<newline>''\<rparr>])"
  using failed_fetch_overwrites_body_with_header
    [of failing 12 start "\<lparr>returncode = 1, stdout = Raw '''', stderr = ''not found''\<rparr>" "()" 45 "[]"]
  by (simp add: failing_def start_def str_int_12 str_int_45)

section \<open>Facts about the GraphQL linking pass\<close>

lemma fold_set_parent:
  "fold set_parent L m = m ++ map_of (rev L)"
proof (induction L arbitrary: m)
  case Nil
  show ?case by simp
next
  case (Cons cp L)
  have "set_parent cp m ++ map_of (rev L) = m ++ map_of (rev L @ [cp])"
    by (rule ext) (cases cp, simp add: set_parent_def map_add_def split: option.splits)
  with Cons show ?case by simp
qed

lemma fold_set_parent_twice:
  "fold set_parent L (fold set_parent L m) = fold set_parent L m"
  unfolding fold_set_parent
  by (rule ext) (simp add: map_add_def split: option.splits)

lemma get_issue_id_tracker:
  "\<exists>v. \<forall>s. issues (world s) = I \<longrightarrow>
      (\<exists>s1. get_issue_id (tracker_env rp) n s = (Inr v, s1) \<and> world s1 = world s)"
proof (cases "find (\<lambda>(m, gid). ''query='' @ id_query n = ''query='' @ id_query m) I")
  case None
  then show ?thesis
    by (intro exI[of _ JNull])
       (auto simp: get_issue_id_def run_def tracker_env_def tracker_gh_def Let_def failed_def)
next
  case (Some a)
  obtain m gid where a: "a = (m, gid)" by (cases a)
  with Some show ?thesis
    by (intro exI[of _ "JStr gid"])
       (auto simp: get_issue_id_def run_def tracker_env_def tracker_gh_def Let_def ok_def set_parent_def)
qed

lemma link_sub_issue_tracker:
  "\<exists>L. \<forall>s. issues (world s) = I \<longrightarrow>
      world (snd (link_sub_issue (tracker_env rp) pid cid s))
        = (world s)\<lparr>parent := fold set_parent L (parent (world s))\<rparr>"
proof (cases "py_str rp pid \<in> set (map snd I) \<and> py_str rp cid \<in> set (map snd I)")
  case True
  then show ?thesis
    by (intro exI[of _ "[(py_str rp cid, py_str rp pid)]"])
       (auto simp: link_sub_issue_def run_def tracker_env_def tracker_gh_def Let_def ok_def set_parent_def)
next
  case False
  then show ?thesis
    by (intro exI[of _ "[]"])
       (auto simp: link_sub_issue_def run_def tracker_env_def tracker_gh_def Let_def failed_def)
qed


lemma fetch_epic_ids_tracker:
  "\<exists>ids'. \<forall>s. issues (world s) = I \<longrightarrow>
      (\<exists>s1. fetch_epic_ids (tracker_env rp) ns ids s = (Inr ids', s1) \<and> world s1 = world s)"
proof (induction ns arbitrary: ids)
  case Nil
  show ?case by simp
next
  case (Cons n ns)
  obtain v where v: "\<forall>s. issues (world s) = I \<longrightarrow>
      (\<exists>s1. get_issue_id (tracker_env rp) n s = (Inr v, s1) \<and> world s1 = world s)"
    using get_issue_id_tracker by blast
  obtain ids' where ids': "\<forall>s. issues (world s) = I \<longrightarrow>
      (\<exists>s1. fetch_epic_ids (tracker_env rp) ns (ids(n \<mapsto> v)) s = (Inr ids', s1) \<and> world s1 = world s)"
    using Cons.IH by blast
  show ?case
  proof (intro exI[of _ ids'] allI impI)
    fix s :: "tracker state"
    assume I: "issues (world s) = I"
    from v I obtain s1 where s1: "get_issue_id (tracker_env rp) n s = (Inr v, s1)" "world s1 = world s"
      by blast
    let ?s2 = "print [Lit ''  Epic #'', Lit (str_int n), Lit '': '', Val v] s1"
    have "issues (world ?s2) = I" using s1 I by simp
    with ids' obtain s3 where
      "fetch_epic_ids (tracker_env rp) ns (ids(n \<mapsto> v)) ?s2 = (Inr ids', s3)" "world s3 = world ?s2"
      by blast
    with s1 show "\<exists>s1. fetch_epic_ids (tracker_env rp) (n # ns) ids s = (Inr ids', s1) \<and> world s1 = world s"
      by simp
  qed
qed

lemma fetch_child_ids_tracker:
  "\<exists>ids'. \<forall>s. issues (world s) = I \<longrightarrow>
      (\<exists>s1. fetch_child_ids (tracker_env rp) ns ids s = (Inr ids', s1) \<and> world s1 = world s)"
proof (induction ns arbitrary: ids)
  case Nil
  show ?case by simp
next
  case (Cons n ns)
  show ?case
  proof (cases "n \<in> dom ids")
    case True
    with Cons.IH[of ids] show ?thesis by simp
  next
    case False
    obtain v where v: "\<forall>s. issues (world s) = I \<longrightarrow>
        (\<exists>s1. get_issue_id (tracker_env rp) n s = (Inr v, s1) \<and> world s1 = world s)"
      using get_issue_id_tracker by blast
    obtain ids' where ids': "\<forall>s. issues (world s) = I \<longrightarrow>
        (\<exists>s1. fetch_child_ids (tracker_env rp) ns (ids(n \<mapsto> v)) s = (Inr ids', s1) \<and> world s1 = world s)"
      using Cons.IH by blast
    show ?thesis
    proof (intro exI[of _ ids'] allI impI)
      fix s :: "tracker state"
      assume I: "issues (world s) = I"
      from v I obtain s1 where s1: "get_issue_id (tracker_env rp) n s = (Inr v, s1)" "world s1 = world s"
        by blast
      with ids' I obtain s3 where
        "fetch_child_ids (tracker_env rp) ns (ids(n \<mapsto> v)) s1 = (Inr ids', s3)" "world s3 = world s1"
        by metis
      with s1 False
      show "\<exists>s1. fetch_child_ids (tracker_env rp) (n # ns) ids s = (Inr ids', s1) \<and> world s1 = world s"
        by simp
    qed
  qed
qed

lemma fetch_all_child_ids_tracker:
  "\<exists>ids'. \<forall>s. issues (world s) = I \<longrightarrow>
      (\<exists>s1. fetch_all_child_ids (tracker_env rp) nss ids s = (Inr ids', s1) \<and> world s1 = world s)"
proof (induction nss arbitrary: ids)
  case Nil
  show ?case by simp
next
  case (Cons ns nss)
  obtain ids1 where ids1: "\<forall>s. issues (world s) = I \<longrightarrow>
      (\<exists>s1. fetch_child_ids (tracker_env rp) ns ids s = (Inr ids1, s1) \<and> world s1 = world s)"
    using fetch_child_ids_tracker by blast
  obtain ids' where ids': "\<forall>s. issues (world s) = I \<longrightarrow>
      (\<exists>s1. fetch_all_child_ids (tracker_env rp) nss ids1 s = (Inr ids', s1) \<and> world s1 = world s)"
    using Cons.IH by blast
  show ?case
  proof (intro exI[of _ ids'] allI impI)
    fix s :: "tracker state"
    assume I: "issues (world s) = I"
    from ids1 I obtain s1 where s1: "fetch_child_ids (tracker_env rp) ns ids s = (Inr ids1, s1)" "world s1 = world s"
      by blast
    with ids' I obtain s3 where
      "fetch_all_child_ids (tracker_env rp) nss ids1 s1 = (Inr ids', s3)" "world s3 = world s1"
      by metis
    with s1
    show "\<exists>s1. fetch_all_child_ids (tracker_env rp) (ns # nss) ids s = (Inr ids', s1) \<and> world s1 = world s"
      by simp
  qed
qed


lemma link_to_epic_tracker:
  "\<exists>L. \<forall>s. issues (world s) = I \<longrightarrow>
      world (link_to_epic (tracker_env rp) ids en pid cs s)
        = (world s)\<lparr>parent := fold set_parent L (parent (world s))\<rparr>"
proof (induction cs)
  case Nil
  show ?case by (intro exI[of _ "[]"]) simp
next
  case (Cons c cs)
  obtain L2 where L2: "\<forall>s. issues (world s) = I \<longrightarrow>
      world (link_to_epic (tracker_env rp) ids en pid cs s)
        = (world s)\<lparr>parent := fold set_parent L2 (parent (world s))\<rparr>"
    using Cons.IH by blast
  let ?cid = "case ids c of None \<Rightarrow> JNull | Some v \<Rightarrow> v"
  show ?case
  proof (cases "truthy ?cid")
    case False
    show ?thesis
    proof (intro exI[of _ L2] allI impI)
      fix s :: "tracker state"
      assume I: "issues (world s) = I"
      let ?s1 = "print [Lit ''  Could not get ID for issue #'', Lit (str_int c)] s"
      have "issues (world ?s1) = I" using I by simp
      with L2 have "world (link_to_epic (tracker_env rp) ids en pid cs ?s1)
          = (world ?s1)\<lparr>parent := fold set_parent L2 (parent (world ?s1))\<rparr>"
        by blast
      with False show "world (link_to_epic (tracker_env rp) ids en pid (c # cs) s)
          = (world s)\<lparr>parent := fold set_parent L2 (parent (world s))\<rparr>"
        by simp
    qed
  next
    case True
    obtain L1 where L1: "\<forall>s. issues (world s) = I \<longrightarrow>
        world (snd (link_sub_issue (tracker_env rp) pid ?cid s))
          = (world s)\<lparr>parent := fold set_parent L1 (parent (world s))\<rparr>"
      using link_sub_issue_tracker by blast
    show ?thesis
    proof (intro exI[of _ "L1 @ L2"] allI impI)
      fix s :: "tracker state"
      assume I: "issues (world s) = I"
      obtain success err s1 where r: "link_sub_issue (tracker_env rp) pid ?cid s = ((success, err), s1)"
        by (metis surj_pair)
      with L1 I have w1: "world s1 = (world s)\<lparr>parent := fold set_parent L1 (parent (world s))\<rparr>"
        by (metis snd_conv)
      let ?s2 = "if success
                 then print [Lit ''  Linked #'', Lit (str_int c), Lit '' -> #'', Lit (str_int en)] s1
                 else print [Lit ''  ERROR linking #'', Lit (str_int c), Lit '': '', Lit (take 100 err)] s1"
      have w2: "world ?s2 = world s1" by simp
      then have "issues (world ?s2) = I" using w1 I by simp
      with L2 have "world (link_to_epic (tracker_env rp) ids en pid cs ?s2)
          = (world ?s2)\<lparr>parent := fold set_parent L2 (parent (world ?s2))\<rparr>"
        by blast
      then have "world (link_to_epic (tracker_env rp) ids en pid cs ?s2)
          = (world s)\<lparr>parent := fold set_parent (L1 @ L2) (parent (world s))\<rparr>"
        unfolding w2 w1 by simp
      with True r show "world (link_to_epic (tracker_env rp) ids en pid (c # cs) s)
          = (world s)\<lparr>parent := fold set_parent (L1 @ L2) (parent (world s))\<rparr>"
        by simp
    qed
  qed
qed

lemma link_all_tracker:
  "\<exists>L. \<forall>s. issues (world s) = I \<longrightarrow>
      world (link_all (tracker_env rp) ids pm s)
        = (world s)\<lparr>parent := fold set_parent L (parent (world s))\<rparr>"
proof (induction pm)
  case Nil
  show ?case by (intro exI[of _ "[]"]) simp
next
  case (Cons ec pm)
  obtain en cs where ec: "ec = (en, cs)" by (cases ec)
  obtain L2 where L2: "\<forall>s. issues (world s) = I \<longrightarrow>
      world (link_all (tracker_env rp) ids pm s)
        = (world s)\<lparr>parent := fold set_parent L2 (parent (world s))\<rparr>"
    using Cons.IH by blast
  let ?pid = "case ids en of None \<Rightarrow> JNull | Some v \<Rightarrow> v"
  show ?case
  proof (cases "truthy ?pid")
    case False
    show ?thesis
    proof (intro exI[of _ L2] allI impI)
      fix s :: "tracker state"
      assume I: "issues (world s) = I"
      let ?s1 = "print [Lit ''Could not get ID for epic #'', Lit (str_int en)] s"
      have "issues (world ?s1) = I" using I by simp
      with L2 have "world (link_all (tracker_env rp) ids pm ?s1)
          = (world ?s1)\<lparr>parent := fold set_parent L2 (parent (world ?s1))\<rparr>"
        by blast
      with False show "world (link_all (tracker_env rp) ids (ec # pm) s)
          = (world s)\<lparr>parent := fold set_parent L2 (parent (world s))\<rparr>"
        by (simp add: ec)
    qed
  next
    case True
    obtain L1 where L1: "\<forall>s. issues (world s) = I \<longrightarrow>
        world (link_to_epic (tracker_env rp) ids en ?pid cs s)
          = (world s)\<lparr>parent := fold set_parent L1 (parent (world s))\<rparr>"
      using link_to_epic_tracker by blast
    show ?thesis
    proof (intro exI[of _ "L1 @ L2"] allI impI)
      fix s :: "tracker state"
      assume I: "issues (world s) = I"
      let ?s0 = "print [Lit ''Linking to epic #'', Lit (str_int en), Lit ''...''] s"
      let ?s1 = "link_to_epic (tracker_env rp) ids en ?pid cs ?s0"
      have "issues (world ?s0) = I" using I by simp
      with L1 have w1: "world ?s1 = (world s)\<lparr>parent := fold set_parent L1 (parent (world s))\<rparr>"
        by (metis world_print)
      then have "issues (world ?s1) = I" using I by simp
      with L2 have "world (link_all (tracker_env rp) ids pm ?s1)
          = (world ?s1)\<lparr>parent := fold set_parent L2 (parent (world ?s1))\<rparr>"
        by blast
      then have "world (link_all (tracker_env rp) ids pm ?s1)
          = (world s)\<lparr>parent := fold set_parent (L1 @ L2) (parent (world s))\<rparr>"
        unfolding w1 by simp
      with True show "world (link_all (tracker_env rp) ids (ec # pm) s)
          = (world s)\<lparr>parent := fold set_parent (L1 @ L2) (parent (world s))\<rparr>"
        by (simp add: ec)
    qed
  qed
qed

lemma link_issues_graphql_over_tracker:
  "\<exists>L. \<forall>s. issues (world s) = I \<longrightarrow>
      (\<exists>s'. link_issues_graphql_over (tracker_env rp) pm s = (Inr (), s')
            \<and> world s' = (world s)\<lparr>parent := fold set_parent L (parent (world s))\<rparr>)"
proof -
  obtain ids1 where ids1: "\<forall>s. issues (world s) = I \<longrightarrow>
      (\<exists>s1. fetch_epic_ids (tracker_env rp) (map fst pm) Map.empty s = (Inr ids1, s1) \<and> world s1 = world s)"
    using fetch_epic_ids_tracker by blast
  obtain ids where ids: "\<forall>s. issues (world s) = I \<longrightarrow>
      (\<exists>s1. fetch_all_child_ids (tracker_env rp) (map snd pm) ids1 s = (Inr ids, s1) \<and> world s1 = world s)"
    using fetch_all_child_ids_tracker by blast
  obtain L where L: "\<forall>s. issues (world s) = I \<longrightarrow>
      world (link_all (tracker_env rp) ids pm s)
        = (world s)\<lparr>parent := fold set_parent L (parent (world s))\<rparr>"
    using link_all_tracker by blast
  show ?thesis
  proof (intro exI[of _ L] allI impI)
    fix s :: "tracker state"
    assume I: "issues (world s) = I"
    let ?s0 = "print [Lit ''Fetching issue IDs...\<newline>''] s"
    have i0: "issues (world ?s0) = I" using I by simp
    from ids1[rule_format, OF i0] obtain s1 where s1:
      "fetch_epic_ids (tracker_env rp) (map fst pm) Map.empty ?s0 = (Inr ids1, s1)"
      and w1: "world s1 = world ?s0"
      by blast
    have i1: "issues (world s1) = I" using w1 I by simp
    from ids[rule_format, OF i1] obtain s2 where s2:
      "fetch_all_child_ids (tracker_env rp) (map snd pm) ids1 s1 = (Inr ids, s2)"
      and w2: "world s2 = world s1"
      by blast
    let ?s3 = "print [Lit ''\<newline>Linking '',
                      Lit (str_int (int (sum_list (map (\<lambda>v. length (snd v)) pm)))),
                      Lit '' child issues to parent epics...\<newline>''] s2"
    have w3: "world ?s3 = world s" using w1 w2 by simp
    then have i3: "issues (world ?s3) = I" using I by simp
    have "world (link_all (tracker_env rp) ids pm ?s3)
        = (world ?s3)\<lparr>parent := fold set_parent L (parent (world ?s3))\<rparr>"
      by (rule L[rule_format, OF i3])
    then have w4: "world (link_all (tracker_env rp) ids pm ?s3)
        = (world s)\<lparr>parent := fold set_parent L (parent (world s))\<rparr>"
      unfolding w3 .
    have "link_issues_graphql_over (tracker_env rp) pm s
        = (Inr (), print [Lit ''\<newline>All child issues linked to parent epics!'']
                     (link_all (tracker_env rp) ids pm ?s3))"
      unfolding link_issues_graphql_over_def s1 by (simp add: s2)
    with w4
    show "\<exists>s'. link_issues_graphql_over (tracker_env rp) pm s = (Inr (), s')
            \<and> world s' = (world s)\<lparr>parent := fold set_parent L (parent (world s))\<rparr>"
      by simp
  qed
qed

text \<open>
  An example: in a tracker that holds the epic 45 and the issue 12, the pass over the map
  from 45 to 12 makes the epic the parent of the issue.
\<close>

lemma linking_sets_the_parent:
  "parent (world (snd (link_issues_graphql_over (tracker_env (\<lambda>j. [])) [(45, [12])] small_tracker)))
     ''I_issue12'' = Some ''I_epic45''"
  by (simp add: link_issues_graphql_over_def
        get_issue_id_def link_sub_issue_def run_def print_def tracker_env_def tracker_gh_def
        small_tracker_def ok_def failed_def set_parent_def Let_def
        id_query_def str_int_def str_nat.simps digit_def)

text \<open>
  C3. Against the tracker of the specification, running the GraphQL linking pass a second
  time leaves the parent of every issue as the first run left it: every link call passes
  \<^verbatim>\<open>replaceParent=true\<close>, the second run resolves the same ids from the same static id
  map and repeats the same calls, and each call overwrites the parent it finds. Both runs
  complete.
\<close>

theorem relinking_twice_same_as_once:
  "fst (link_issues_graphql (tracker_env rp) s) = Inr ()
   \<and> fst (link_issues_graphql (tracker_env rp) (snd (link_issues_graphql (tracker_env rp) s))) = Inr ()
   \<and> parent (world (snd (link_issues_graphql (tracker_env rp)
                             (snd (link_issues_graphql (tracker_env rp) s)))))
       = parent (world (snd (link_issues_graphql (tracker_env rp) s)))"
proof -
  obtain L where L: "\<forall>s'. issues (world s') = issues (world s) \<longrightarrow>
      (\<exists>s''. link_issues_graphql_over (tracker_env rp) phase_map s' = (Inr (), s'')
            \<and> world s'' = (world s')\<lparr>parent := fold set_parent L (parent (world s'))\<rparr>)"
    using link_issues_graphql_over_tracker by blast
  then obtain s1 where s1: "link_issues_graphql (tracker_env rp) s = (Inr (), s1)"
      "world s1 = (world s)\<lparr>parent := fold set_parent L (parent (world s))\<rparr>"
    unfolding link_issues_graphql_def by blast
  then have "issues (world s1) = issues (world s)" by simp
  with L obtain s2 where s2: "link_issues_graphql (tracker_env rp) s1 = (Inr (), s2)"
      "world s2 = (world s1)\<lparr>parent := fold set_parent L (parent (world s1))\<rparr>"
    unfolding link_issues_graphql_def by blast
  have "parent (world s2) = parent (world s1)"
    unfolding s2(2) s1(2) by (simp add: fold_set_parent_twice)
  with s1 s2 show ?thesis by simp
qed


text \<open>
  C1. Not every failure becomes a logged message and a sentinel value. When the first id
  query of \<^verbatim>\<open>link_issues_graphql.py\<close> exits with 0 and prints a text that is not JSON
  (here the empty text), \<^verbatim>\<open>json.loads\<close> raises inside \<open>get_issue_id\<close>, nothing catches
  the exception, and the run ends after one call with only its opening line printed: the
  summary line is never reached. The view call of \<^verbatim>\<open>link_child_to_parent.py\<close> has the same
  gap.
\<close>

theorem malformed_output_aborts_linking_scripts:
  "fst (link_issues_graphql (always (Raw [])) start) = Inl JSONDecodeError
   \<and> printed (snd (link_issues_graphql (always (Raw [])) start))
         = [[Lit ''Fetching issue IDs...\<newline>'']]
   \<and> length (calls (snd (link_issues_graphql (always (Raw [])) start))) = 1
   \<and> fst (link_child_to_parent (always (Raw [])) start) = Inl JSONDecodeError
   \<and> printed (snd (link_child_to_parent (always (Raw [])) start))
         = [[Lit ''Linking child issues to epic #'', Lit (str_int 45), Lit ''...'']]"
  by (simp add: link_issues_graphql_def link_issues_graphql_over_def link_child_to_parent_def
        phase_map_def get_issue_id_def get_issue_body_def run_def print_def always_def start_def)

section \<open>Facts about create_epics.py, create_github_issues.py and link_issues_hierarchy.py\<close>

lemma calls_fold_run:
  "calls (fold (\<lambda>label s2. snd (run e (f label) s2)) labels s) = calls s @ map f labels"
  by (induction labels arbitrary: s) (simp_all add: calls_run)

lemma snd_run_gh: "snd (run_gh e args s) = snd (run e \<lparr>argv = ''gh'' # args, stdin = None\<rparr> s)"
  by (simp add: run_gh_def split: prod.splits)

lemma calls_fold_run_gh:
  "calls (fold (\<lambda>label s2. snd (run_gh e (f label) s2)) labels s)
     = calls s @ map (\<lambda>label. \<lparr>argv = ''gh'' # f label, stdin = None\<rparr>) labels"
  by (induction labels arbitrary: s) (simp_all add: snd_run_gh calls_run)

lemma create_epic_returns_number:
  assumes "gh e \<lparr>argv = [''gh'', ''api'', ''-X'', ''POST'', ''/repos/goblinsan/vizail/issues'',
                          ''-f'', ''title='' @ title, ''-f'', ''body='' @ body],
                  stdin = None\<rparr> (world s) = (r, w)"
    and "returncode r = 0"
    and "stdout r = Json (JObj kvs)"
    and "map_of kvs ''number'' = Some num"
  shows "fst (create_epic_create_epics e title body labels s) = num"
    and "calls (snd (create_epic_create_epics e title body labels s))
           = calls s
             @ \<lparr>argv = [''gh'', ''api'', ''-X'', ''POST'', ''/repos/goblinsan/vizail/issues'',
                         ''-f'', ''title='' @ title, ''-f'', ''body='' @ body],
                 stdin = None\<rparr>
             # map (\<lambda>label. \<lparr>argv = [''gh'', ''issue'', ''edit'', py_str (repr e) num,
                                       ''--add-label'', label],
                               stdin = None\<rparr>) labels"
proof -
  let ?i = "\<lparr>argv = [''gh'', ''api'', ''-X'', ''POST'', ''/repos/goblinsan/vizail/issues'',
                        ''-f'', ''title='' @ title, ''-f'', ''body='' @ body],
                stdin = None\<rparr>"
  have r1: "run e ?i s = (r, s\<lparr>world := w, calls := calls s @ [?i]\<rparr>)"
    using assms(1) by (simp add: run_def)
  show "fst (create_epic_create_epics e title body labels s) = num"
    using r1 assms(2-4)
    by (simp add: create_epic_create_epics_def REPO_create_epics_def)
  show "calls (snd (create_epic_create_epics e title body labels s))
           = calls s @ ?i
             # map (\<lambda>label. \<lparr>argv = [''gh'', ''issue'', ''edit'', py_str (repr e) num,
                                       ''--add-label'', label],
                               stdin = None\<rparr>) labels"
    using r1 assms(2-4)
    by (simp add: create_epic_create_epics_def REPO_create_epics_def calls_fold_run)
qed

lemma create_issue_returns_number:
  assumes "gh e \<lparr>argv = [''gh'', ''api'', ''-X'', ''POST'', ''/repos/goblinsan/visual-flow/issues'',
                          ''-f'', ''title='' @ title, ''-f'', ''body='' @ body]
                         @ (if truthy milestone_num
                            then [''-f'', ''milestone='' @ py_str (repr e) milestone_num] else []),
                  stdin = None\<rparr> (world s) = (r, w)"
    and "returncode r = 0"
    and "strip_text (stdout r) = Json (JObj kvs)"
    and "map_of kvs ''number'' = Some num"
  shows "fst (create_issue_create_github_issues e title body milestone_num labels s) = num"
    and "calls (snd (create_issue_create_github_issues e title body milestone_num labels s))
           = calls s
             @ \<lparr>argv = [''gh'', ''api'', ''-X'', ''POST'', ''/repos/goblinsan/visual-flow/issues'',
                         ''-f'', ''title='' @ title, ''-f'', ''body='' @ body]
                        @ (if truthy milestone_num
                           then [''-f'', ''milestone='' @ py_str (repr e) milestone_num] else []),
                 stdin = None\<rparr>
             # map (\<lambda>label. \<lparr>argv = [''gh'', ''issue'', ''edit'', py_str (repr e) num,
                                       ''--add-label'', label],
                               stdin = None\<rparr>) labels"
proof -
  let ?i = "\<lparr>argv = [''gh'', ''api'', ''-X'', ''POST'', ''/repos/goblinsan/visual-flow/issues'',
                        ''-f'', ''title='' @ title, ''-f'', ''body='' @ body]
                       @ (if truthy milestone_num
                          then [''-f'', ''milestone='' @ py_str (repr e) milestone_num] else []),
                stdin = None\<rparr>"
  let ?s0 = "print [Lit ''    Creating issue: '', Lit (take 50 title), Lit ''...''] s"
  have r2: "run_gh e (tl (argv ?i)) ?s0
              = ((Json (JObj kvs), strip (stderr r), 0), ?s0\<lparr>world := w, calls := calls s @ [?i]\<rparr>)"
    using assms(1-3) by (simp add: run_gh_def run_def print_def)
  show "fst (create_issue_create_github_issues e title body milestone_num labels s) = num"
    using r2 assms(4)
    by (simp add: create_issue_create_github_issues_def REPO_create_github_issues_def)
  show "calls (snd (create_issue_create_github_issues e title body milestone_num labels s))
           = calls s @ ?i
             # map (\<lambda>label. \<lparr>argv = [''gh'', ''issue'', ''edit'', py_str (repr e) num,
                                       ''--add-label'', label],
                               stdin = None\<rparr>) labels"
    using r2 assms(4)
    by (simp add: create_issue_create_github_issues_def REPO_create_github_issues_def
          calls_fold_run_gh)
qed

text \<open>
  C7. In \<open>create_epic\<close> of \<^verbatim>\<open>create_epics.py\<close> and in \<open>create_issue\<close> of
  \<^verbatim>\<open>create_github_issues.py\<close>, each on its own, the labels are applied by follow-up calls
  after the creation call, one call for each label and no more, and what these calls
  return is not looked at: when the creation call of the function exits with 0 and its
  output parses to an object with a \<^verbatim>\<open>number\<close>, the function returns that number whatever
  the label calls do.
\<close>

theorem label_failures_do_not_fail_creation:
  "(gh e \<lparr>argv = [''gh'', ''api'', ''-X'', ''POST'', ''/repos/goblinsan/vizail/issues'',
                   ''-f'', ''title='' @ title, ''-f'', ''body='' @ body],
           stdin = None\<rparr> (world s) = (r, w)
      \<and> returncode r = 0 \<and> stdout r = Json (JObj kvs) \<and> map_of kvs ''number'' = Some num
    \<longrightarrow> fst (create_epic_create_epics e title body labels s) = num
      \<and> calls (snd (create_epic_create_epics e title body labels s))
          = calls s
            @ \<lparr>argv = [''gh'', ''api'', ''-X'', ''POST'', ''/repos/goblinsan/vizail/issues'',
                        ''-f'', ''title='' @ title, ''-f'', ''body='' @ body],
                stdin = None\<rparr>
            # map (\<lambda>label. \<lparr>argv = [''gh'', ''issue'', ''edit'', py_str (repr e) num,
                                      ''--add-label'', label],
                              stdin = None\<rparr>) labels)
   \<and> (gh e \<lparr>argv = [''gh'', ''api'', ''-X'', ''POST'', ''/repos/goblinsan/visual-flow/issues'',
                      ''-f'', ''title='' @ title, ''-f'', ''body='' @ body]
                     @ (if truthy milestone_num
                        then [''-f'', ''milestone='' @ py_str (repr e) milestone_num] else []),
              stdin = None\<rparr> (world s) = (r', w')
      \<and> returncode r' = 0 \<and> strip_text (stdout r') = Json (JObj kvs')
      \<and> map_of kvs' ''number'' = Some num'
    \<longrightarrow> fst (create_issue_create_github_issues e title body milestone_num labels s) = num'
      \<and> calls (snd (create_issue_create_github_issues e title body milestone_num labels s))
          = calls s
            @ \<lparr>argv = [''gh'', ''api'', ''-X'', ''POST'', ''/repos/goblinsan/visual-flow/issues'',
                        ''-f'', ''title='' @ title, ''-f'', ''body='' @ body]
                       @ (if truthy milestone_num
                          then [''-f'', ''milestone='' @ py_str (repr e) milestone_num] else []),
                stdin = None\<rparr>
            # map (\<lambda>label. \<lparr>argv = [''gh'', ''issue'', ''edit'', py_str (repr e) num',
                                      ''--add-label'', label],
                              stdin = None\<rparr>) labels)"
  using create_epic_returns_number[of e title body s r w kvs num labels]
        create_issue_returns_number[of e title body milestone_num s r' w' kvs' num' labels]
  by blast

text \<open>
  Each half at a concrete input: in a world in which only the creation call of
  \<^verbatim>\<open>create_epics.py\<close> succeeds and every other call, the label calls among them, exits with
  1, \<open>create_epic\<close> returns 39 after its two label calls; in a world in which only the
  creation call of \<^verbatim>\<open>create_github_issues.py\<close> succeeds, \<open>create_issue\<close> does.
\<close>

theorem label_failures_do_not_fail_creation_witness:
  "returncode (fst (gh (post_only ''/repos/goblinsan/vizail/issues'' (JObj [(''number'', JNum 39)]))
                      \<lparr>argv = [''gh'', ''issue'', ''edit'', ''39'', ''--add-label'', ''epic''],
                        stdin = None\<rparr> ())) = 1
   \<and> returncode (fst (gh (post_only ''/repos/goblinsan/vizail/issues'' (JObj [(''number'', JNum 39)]))
                      \<lparr>argv = [''gh'', ''api'', ''-X'', ''POST'', ''/repos/goblinsan/visual-flow/issues'',
                                ''-f'', ''title=Epic'', ''-f'', ''body=Goal'', ''-f'', ''milestone=1''],
                        stdin = None\<rparr> ())) = 1
   \<and> fst (create_epic_create_epics
             (post_only ''/repos/goblinsan/vizail/issues'' (JObj [(''number'', JNum 39)]))
             ''Epic'' ''Goal'' [''epic'', ''phase-0''] start) = JNum 39
   \<and> calls (snd (create_epic_create_epics
             (post_only ''/repos/goblinsan/vizail/issues'' (JObj [(''number'', JNum 39)]))
             ''Epic'' ''Goal'' [''epic'', ''phase-0''] start))
       = [\<lparr>argv = [''gh'', ''api'', ''-X'', ''POST'', ''/repos/goblinsan/vizail/issues'',
                    ''-f'', ''title=Epic'', ''-f'', ''body=Goal''], stdin = None\<rparr>,
          \<lparr>argv = [''gh'', ''issue'', ''edit'', ''39'', ''--add-label'', ''epic''], stdin = None\<rparr>,
          \<lparr>argv = [''gh'', ''issue'', ''edit'', ''39'', ''--add-label'', ''phase-0''], stdin = None\<rparr>]
   \<and> returncode (fst (gh (post_only ''/repos/goblinsan/visual-flow/issues'' (JObj [(''number'', JNum 12)]))
                      \<lparr>argv = [''gh'', ''issue'', ''edit'', ''12'', ''--add-label'', ''api''],
                        stdin = None\<rparr> ())) = 1
   \<and> fst (create_issue_create_github_issues
             (post_only ''/repos/goblinsan/visual-flow/issues'' (JObj [(''number'', JNum 12)]))
             ''Issue'' ''Task'' (JNum 1) [''api'', ''agents''] start) = JNum 12
   \<and> calls (snd (create_issue_create_github_issues
             (post_only ''/repos/goblinsan/visual-flow/issues'' (JObj [(''number'', JNum 12)]))
             ''Issue'' ''Task'' (JNum 1) [''api'', ''agents''] start))
       = [\<lparr>argv = [''gh'', ''api'', ''-X'', ''POST'', ''/repos/goblinsan/visual-flow/issues'',
                    ''-f'', ''title=Issue'', ''-f'', ''body=Task'', ''-f'', ''milestone=1''],
            stdin = None\<rparr>,
          \<lparr>argv = [''gh'', ''issue'', ''edit'', ''12'', ''--add-label'', ''api''], stdin = None\<rparr>,
          \<lparr>argv = [''gh'', ''issue'', ''edit'', ''12'', ''--add-label'', ''agents''], stdin = None\<rparr>]"
  using label_failures_do_not_fail_creation
          [of "post_only ''/repos/goblinsan/vizail/issues'' (JObj [(''number'', JNum 39)])"
              "''Epic''" "''Goal''" start
              "\<lparr>returncode = 0, stdout = Json (JObj [(''number'', JNum 39)]), stderr = []\<rparr>" "()"
              "[(''number'', JNum 39)]" "JNum 39" "[''epic'', ''phase-0'']",
           THEN conjunct1]
        label_failures_do_not_fail_creation
          [of "post_only ''/repos/goblinsan/visual-flow/issues'' (JObj [(''number'', JNum 12)])"
              "''Issue''" "''Task''" start _ _ _ _ "[''api'', ''agents'']" "JNum 1"
              "\<lparr>returncode = 0, stdout = Json (JObj [(''number'', JNum 12)]), stderr = []\<rparr>" "()"
              "[(''number'', JNum 12)]" "JNum 12",
           THEN conjunct2]
  by (simp add: post_only_def start_def ok_def failed_def str_int_def str_nat.simps digit_def)







section \<open>Facts about create_milestones_and_issues.py\<close>

lemma create_milestone_unbound:
  "ns ''REPO'' = None \<Longrightarrow>
   create_milestone ns e title description duration s
     = (Inl (NameError ''REPO''), print [Lit ''Creating milestone: '', Lit title] s)"
  by (simp add: create_milestone_def load_name_def)

lemma create_epic_unbound:
  "ns ''issue_number'' = None \<Longrightarrow>
   create_epic ns e milestone_num title s
     = (Inl (NameError ''issue_number''), print [Lit ''  Creating epic: '', Lit title] s)"
  by (simp add: create_epic_def load_name_def)

lemma create_issue_unbound:
  "ns ''REPO'' = None \<Longrightarrow>
   create_issue ns e milestone_num epic_num title body s = (Inl (NameError ''REPO''), s)"
  by (simp add: create_issue_def load_name_def)

lemma module_namespace_unbound:
  "module_namespace ''REPO'' = None" "module_namespace ''issue_number'' = None"
  by (simp_all add: module_namespace_def)

lemma main_first_phase_raises:
  "ns ''REPO'' = None \<Longrightarrow>
   main ns e ((phase_name, data) # rest) s
     = (Inl (NameError ''REPO''),
        print [Lit ''Creating milestone: '', Lit phase_name]
          (print [Lit (replicate 60 (CHR ''-''))]
             (print [Lit ''\<newline>'', Lit phase_name]
                (print [Lit (replicate 60 (CHR ''=''))]
                   (print [Lit ''Creating GitHub Milestones, Epics, and Issues''] s)))))"
  by (simp add: main_def create_milestone_unbound)

lemma PHASES_first:
  "\<exists>data rest. PHASES = (''Phase 0: Prep & Hardening'', data) # rest"
  by (simp add: PHASES_def)

text \<open>
  C9. The module binds \<^verbatim>\<open>REPO_OWNER\<close> and \<^verbatim>\<open>REPO_NAME\<close> and never \<^verbatim>\<open>REPO\<close>: every call of
  \<open>create_milestone\<close> raises \<^verbatim>\<open>NameError\<close> after its first line of output and before any
  call of the tool, and \<open>create_epic\<close> raises \<^verbatim>\<open>NameError\<close> for \<^verbatim>\<open>issue_number\<close> when it
  builds its body. So every run of the script, whatever the tool would answer, ends with
  the uncaught exception in the first phase, having called the tool not once and having
  printed the banner, the header of the first phase and the first line of
  \<open>create_milestone\<close>.
\<close>

theorem unbound_names_end_every_run:
  "create_milestone module_namespace e title description duration s
     = (Inl (NameError ''REPO''), print [Lit ''Creating milestone: '', Lit title] s)
   \<and> create_epic module_namespace e milestone_num title s
     = (Inl (NameError ''issue_number''), print [Lit ''  Creating epic: '', Lit title] s)
   \<and> fst (create_milestones_and_issues e s) = Inl (NameError ''REPO'')
   \<and> calls (snd (create_milestones_and_issues e s)) = calls s
   \<and> world (snd (create_milestones_and_issues e s)) = world s
   \<and> printed (snd (create_milestones_and_issues e s))
       = printed s @
         [[Lit ''Creating GitHub Milestones, Epics, and Issues''],
          [Lit (replicate 60 (CHR ''=''))],
          [Lit ''\<newline>'', Lit ''Phase 0: Prep & Hardening''],
          [Lit (replicate 60 (CHR ''-''))],
          [Lit ''Creating milestone: '', Lit ''Phase 0: Prep & Hardening'']]"
proof -
  obtain data rest where P: "PHASES = (''Phase 0: Prep & Hardening'', data) # rest"
    using PHASES_first by blast
  have m: "create_milestones_and_issues e s
     = (Inl (NameError ''REPO''),
        print [Lit ''Creating milestone: '', Lit ''Phase 0: Prep & Hardening'']
          (print [Lit (replicate 60 (CHR ''-''))]
             (print [Lit ''\<newline>'', Lit ''Phase 0: Prep & Hardening'']
                (print [Lit (replicate 60 (CHR ''=''))]
                   (print [Lit ''Creating GitHub Milestones, Epics, and Issues''] s)))))"
    unfolding create_milestones_and_issues_def P
    by (rule main_first_phase_raises) (rule module_namespace_unbound)
  show ?thesis
    unfolding m
    by (simp add: create_milestone_unbound create_epic_unbound module_namespace_unbound print_def)
qed

text \<open>
  C2, on the code as it is. The driver does not continue with the next phase: over any
  catalog that has a first phase, \<open>main\<close> in the namespace of the module ends with
  \<^verbatim>\<open>NameError\<close> in the milestone step of that phase, does exactly what it does over the
  first phase alone, and calls the tool not once.
\<close>

theorem first_phase_ends_the_run:
  "fst (main module_namespace e (p # rest) s) = Inl (NameError ''REPO'')
   \<and> main module_namespace e (p # rest) s = main module_namespace e [p] s
   \<and> calls (snd (main module_namespace e (p # rest) s)) = calls s"
  by (cases p) (simp add: main_first_phase_raises module_namespace_unbound)

text \<open>
  C6, on the code as it is. In a world in which every call succeeds and returns the number
  10, so that the milestone of every phase would be created, the script ends with
  \<^verbatim>\<open>NameError\<close> before its first call; and \<open>create_epic\<close>, called with the milestone
  number 10, raises \<^verbatim>\<open>NameError\<close> without a call instead of returning no id.
\<close>

theorem epic_step_is_never_reached:
  "fst (create_milestones_and_issues (always (Json (JObj [(''number'', JNum 10)]))) start)
     = Inl (NameError ''REPO'')
   \<and> calls (snd (create_milestones_and_issues (always (Json (JObj [(''number'', JNum 10)]))) start))
     = []
   \<and> fst (create_epic module_namespace (always (Json (JObj [(''number'', JNum 10)])))
             (JNum 10) ''0: Prep & Hardening'' start)
     = Inl (NameError ''issue_number'')
   \<and> calls (snd (create_epic module_namespace (always (Json (JObj [(''number'', JNum 10)])))
             (JNum 10) ''0: Prep & Hardening'' start))
     = []"
proof -
  obtain data rest where P: "PHASES = (''Phase 0: Prep & Hardening'', data) # rest"
    using PHASES_first by blast
  show ?thesis
    unfolding create_milestones_and_issues_def P
    by (simp add: main_first_phase_raises create_epic_unbound module_namespace_unbound start_def)
qed

lemma epic_title_scenario:
  "str_replace ''Phase '' [] (str_replace ''Phase X: '' [] ''Phase 0: Stabilize'') = ''0: Stabilize''"
  by (simp add: str_replace.simps)

lemma str_int_10_11:
  "str_int 10 = ''10''" "str_int 11 = ''11''" "str_int 12 = ''12''" "str_int 13 = ''13''"
  by (simp_all add: str_int_def str_nat.simps digit_def)

text \<open>
  C4, as the code has it. In the example scenario, in any namespace in which the names
  \<^verbatim>\<open>REPO\<close> and \<^verbatim>\<open>issue_number\<close> are bound, the driver completes after four creation calls:
  the milestone, the epic under milestone 10, and the issues A and B under milestone 10,
  each issue with its own body followed by the trailing reference
  \<^verbatim>\<open>\n\n---\n\nPart of Epic #11\<close>.
\<close>

theorem scenario_children_carry_trailing_epic_reference:
  assumes "ns ''REPO'' = Some repo" and "ns ''issue_number'' = Some n"
  shows "fst (main ns (counting 10) scenario_PHASES counting_start) = Inr ()
       \<and> length (calls (snd (main ns (counting 10) scenario_PHASES counting_start))) = 4
       \<and> argv (calls (snd (main ns (counting 10) scenario_PHASES counting_start)) ! 0)
           = [''gh'', ''milestone'', ''create'', ''--repo'', repo, ''--title'', ''Phase 0: Stabilize'',
              ''--description'', ''Stabilize X\<newline>\<newline>Estimated Duration: 1 week'']
       \<and> take 8 (argv (calls (snd (main ns (counting 10) scenario_PHASES counting_start)) ! 1))
           = [''gh'', ''issue'', ''create'', ''--repo'', repo, ''--title'', ''[10] Epic: 0: Stabilize'',
              ''--body'']
       \<and> drop 9 (argv (calls (snd (main ns (counting 10) scenario_PHASES counting_start)) ! 1))
           = [''--label'', ''Epic'', ''--milestone'', ''10'']
       \<and> drop 2 (calls (snd (main ns (counting 10) scenario_PHASES counting_start)))
           = [\<lparr>argv = [''gh'', ''issue'', ''create'', ''--repo'', repo, ''--title'', ''A'',
                       ''--body'', ''Task A\<newline>\<newline>---\<newline>\<newline>Part of Epic #11'',
                       ''--milestone'', ''10''],
               stdin = None\<rparr>,
              \<lparr>argv = [''gh'', ''issue'', ''create'', ''--repo'', repo, ''--title'', ''B'',
                       ''--body'', ''Task B\<newline>\<newline>---\<newline>\<newline>Part of Epic #11'',
                       ''--milestone'', ''10''],
               stdin = None\<rparr>]"
  using assms
  by (simp add: main_def scenario_PHASES_def counting_def counting_start_def
        create_milestone_def create_epic_def create_issue_def run_gh_command_def run_def
        print_def load_name_def Let_def epic_title_scenario str_int_10_11)


theorem scenario_children_carry_trailing_epic_reference_witness:
  "resolved_namespace ''REPO'' = Some ''goblinsan/visual-flow''
   \<and> resolved_namespace ''issue_number'' = Some ''11''
   \<and> fst (main resolved_namespace (counting 10) scenario_PHASES counting_start) = Inr ()
   \<and> length (calls (snd (main resolved_namespace (counting 10) scenario_PHASES counting_start))) = 4
   \<and> drop 2 (calls (snd (main resolved_namespace (counting 10) scenario_PHASES counting_start)))
       = [\<lparr>argv = [''gh'', ''issue'', ''create'', ''--repo'', ''goblinsan/visual-flow'', ''--title'', ''A'',
                   ''--body'', ''Task A\<newline>\<newline>---\<newline>\<newline>Part of Epic #11'',
                   ''--milestone'', ''10''],
           stdin = None\<rparr>,
          \<lparr>argv = [''gh'', ''issue'', ''create'', ''--repo'', ''goblinsan/visual-flow'', ''--title'', ''B'',
                   ''--body'', ''Task B\<newline>\<newline>---\<newline>\<newline>Part of Epic #11'',
                   ''--milestone'', ''10''],
           stdin = None\<rparr>]"
proof -
  have a: "resolved_namespace ''REPO'' = Some ''goblinsan/visual-flow''"
    and b: "resolved_namespace ''issue_number'' = Some ''11''"
    by (simp_all add: resolved_namespace_def)
  from scenario_children_carry_trailing_epic_reference [OF a b] a b
  show ?thesis by simp
qed

lemma scenario_bodies:
  "argv (calls (snd (main resolved_namespace (counting 10) scenario_PHASES counting_start)) ! 2) ! 8
     = ''Task A\<newline>\<newline>---\<newline>\<newline>Part of Epic #11''"
  "argv (calls (snd (main resolved_namespace (counting 10) scenario_PHASES counting_start)) ! 3) ! 8
     = ''Task B\<newline>\<newline>---\<newline>\<newline>Part of Epic #11''"
  by (simp_all add: main_def scenario_PHASES_def counting_def counting_start_def
        create_milestone_def create_epic_def create_issue_def run_gh_command_def run_def
        print_def load_name_def Let_def epic_title_scenario str_int_10_11 resolved_namespace_def)

text \<open>
  C4, as the claim states it, fails. In the namespace of the module the scenario ends
  with \<^verbatim>\<open>NameError\<close> and no call, so that no child issue exists. Where the two names are
  bound, the bodies sent for the issues A and B do not contain the text
  \<^verbatim>\<open>Parent Epic: #11\<close>; neither does the body that the body-rewrite pass of
  \<^verbatim>\<open>link_child_to_parent.py\<close> would build, whose header is \<^verbatim>\<open>**Parent Epic:** #11\<close>.
\<close>

theorem scenario_bodies_lack_parent_epic_text:
  "fst (main module_namespace (counting 10) scenario_PHASES counting_start) = Inl (NameError ''REPO'')
   \<and> calls (snd (main module_namespace (counting 10) scenario_PHASES counting_start)) = []
   \<and> \<not> contains ''Parent Epic: #11''
         (argv (calls (snd (main resolved_namespace (counting 10) scenario_PHASES counting_start)) ! 2) ! 8)
   \<and> \<not> contains ''Parent Epic: #11''
         (argv (calls (snd (main resolved_namespace (counting 10) scenario_PHASES counting_start)) ! 3) ! 8)
   \<and> \<not> contains ''Parent Epic: #11'' (''**Parent Epic:** #'' @ str_int 11 @ ''\<newline>\<newline>Task A'')"
  unfolding scenario_bodies
  by (simp add: main_def scenario_PHASES_def counting_start_def create_milestone_def
        load_name_def module_namespace_def print_def str_int_10_11)

lemma calls_run_gh_command:
  "calls (snd (run_gh_command e cmd s)) = calls s @ [\<lparr>argv = ''gh'' # cmd, stdin = None\<rparr>]"
  by (cases "gh e \<lparr>argv = ''gh'' # cmd, stdin = None\<rparr> (world s)")
     (simp add: run_gh_command_def run_def)

lemma calls_create_milestone_resolved:
  assumes "ns ''REPO'' = Some repo"
  shows "calls (snd (create_milestone ns e title description duration s))
     = calls s @ [\<lparr>argv = [''gh'', ''milestone'', ''create'', ''--repo'', repo, ''--title'', title,
                            ''--description'',
                            description @ ''\<newline>\<newline>Estimated Duration: '' @ duration],
                   stdin = None\<rparr>]"
proof -
  let ?cmd = "[''milestone'', ''create'', ''--repo'', repo, ''--title'', title, ''--description'',
               description @ ''\<newline>\<newline>Estimated Duration: '' @ duration]"
  let ?s1 = "print [Lit ''Creating milestone: '', Lit title] s"
  obtain out s2 where r: "run_gh_command e ?cmd ?s1 = (out, s2)"
    by (cases "run_gh_command e ?cmd ?s1")
  from calls_run_gh_command[of e ?cmd ?s1] r
  have c: "calls s2 = calls s @ [\<lparr>argv = ''gh'' # ?cmd, stdin = None\<rparr>]" by simp
  show ?thesis
    using assms r c
    by (simp add: create_milestone_def load_name_def Let_def split: option.splits sum.splits)
qed

text \<open>
  What the driver does where the names resolve: a milestone without a number skips the
  phase, an epic without a number skips the issues of the phase, and in both cases the
  loop goes on with the next phase.
\<close>

lemma phase_skipped_when_milestone_fails:
  assumes "create_milestone ns e phase_name (phase_description data) (phase_duration data)
             (print [Lit (replicate 60 (CHR ''-''))] (print [Lit ''\<newline>'', Lit phase_name] s))
           = (Inr milestone_num, s1)"
    and "\<not> truthy milestone_num"
  shows "main_phases ns e ((phase_name, data) # rest) s
           = main_phases ns e rest
               (print [Lit ''Failed to create milestone for '', Lit phase_name] s1)"
  using assms by simp

lemma issues_skipped_when_epic_fails:
  assumes "create_milestone ns e phase_name (phase_description data) (phase_duration data)
             (print [Lit (replicate 60 (CHR ''-''))] (print [Lit ''\<newline>'', Lit phase_name] s))
           = (Inr milestone_num, s1)"
    and "truthy milestone_num"
    and "create_epic ns e milestone_num
             (str_replace ''Phase '' [] (str_replace ''Phase X: '' [] phase_name)) s1
           = (Inr epic_num, s2)"
    and "\<not> truthy epic_num"
  shows "main_phases ns e ((phase_name, data) # rest) s
           = main_phases ns e rest
               (print [Lit ''Failed to create epic for '', Lit phase_name] s2)"
  using assms by simp

end
